theory Spec2Isabelle
  imports Complex_Main "HOL-Library.Word"
begin

section \<open>Data model of the sound generator (Source/SoundGen.cpp)\<close>

text \<open>
  \<open>CSoundGen\<close> is the player thread object of the tracker. Its member functions are
  embedded as functions on a record of its members. The objects it owns or talks to
  (sound driver, APU, DirectSound wrapper, audio driver, wave renderer, instrument
  recorder, tempo display, document, view) are declared in headers that are not part of
  \<open>Source/\<close>; each of them is a record holding what \<open>SoundGen.cpp\<close> reads from it,
  and every call that \<open>SoundGen.cpp\<close> makes on them is appended to a call log, in
  program order.

  The C++ \<open>int\<close> and \<open>unsigned int\<close> values are 32-bit words: a conversion between the
  two keeps the bits, \<open>unat\<close> reads the unsigned value and \<open>sint\<close> the signed one.
\<close>

unbundle bit_operations_syntax

type_synonym uint = "32 word"

datatype machine_t = NTSC | PAL

datatype chip_level_t =
    CHIP_LEVEL_APU1 | CHIP_LEVEL_APU2 | CHIP_LEVEL_VRC6 | CHIP_LEVEL_VRC7
  | CHIP_LEVEL_MMC5 | CHIP_LEVEL_FDS | CHIP_LEVEL_N163 | CHIP_LEVEL_S5B

datatype message_id = IDS_DSOUND_ERROR | IDS_DSOUND_BUFFER_ERROR | IDS_FILE_OPEN_ERROR

text \<open>
  \<open>chan_id_t\<close> is an enumeration of the channels with the extra value \<open>NONE\<close>;
  \<open>value_cast\<close> of a channel is its position in the enumeration, and \<open>NONE\<close> has no
  position inside the per-channel arrays.
\<close>

datatype chan_id_t = CHANID nat | NONE

datatype note_prio_t = NOTE_PRIO_0 | NOTE_PRIO_1 | NOTE_PRIO_2

record stChanNote =
  Note :: nat
  Octave :: nat
  Vol :: nat

record CPlayerCursor =
  CurrentSong :: nat
  CurrentFrame :: nat
  CurrentRow :: nat
  TotalTicks :: nat
  QueuedFrame :: "nat option"

text \<open>
  The settings object \<open>theApp.GetSettings()\<close>: the fields that \<open>SoundGen.cpp\<close> reads,
  in the groups the source names (\<open>Sound\<close>, \<open>ChipLevels\<close>, \<open>Display\<close>, \<open>General\<close>,
  \<open>Midi\<close>).
\<close>

record Settings_Sound =
  iSampleRate :: uint
  iSampleSize :: uint
  iBufferLength :: uint
  iDevice :: uint
  iBassFilter :: uint
  iTrebleFilter :: uint
  iTrebleDamping :: uint
  iMixVolume :: uint

record Settings_ChipLevels =
  iLevelAPU1 :: uint
  iLevelAPU2 :: uint
  iLevelVRC6 :: uint
  iLevelVRC7 :: uint
  iLevelMMC5 :: uint
  iLevelFDS :: uint
  iLevelN163 :: uint
  iLevelS5B :: uint

record CSettings =
  Sound :: Settings_Sound
  ChipLevels :: Settings_ChipLevels
  bAverageBPM :: bool
  bRetrieveChanState :: bool
  bMidiArpeggio :: bool

text \<open>The thread messages of the message map, with their parameters.\<close>

datatype thread_msg =
    WM_USER_SILENT_ALL
  | WM_USER_LOAD_SETTINGS
  | WM_USER_PLAY CPlayerCursor
  | WM_USER_STOP
  | WM_USER_RESET CPlayerCursor
  | WM_USER_START_RENDER
  | WM_USER_STOP_RENDER
  | WM_USER_PREVIEW_SAMPLE uint uint
  | WM_USER_WRITE_APU uint uint
  | WM_USER_CLOSE_SOUND bool
  | WM_USER_SET_CHIP uint
  | WM_USER_REMOVE_DOCUMENT

text \<open>
  Calls on the collaborators, as they appear in \<open>SoundGen.cpp\<close>, grouped by the object
  that receives them. \<open>APU_NoteRegisters c n\<close> stands for the register writes that the
  sound driver emits for note \<open>n\<close> on channel \<open>c\<close> (see \<open>CSoundDriver_UpdateAPU\<close>).
\<close>

datatype apu_call =
    APU_Reset
  | APU_Write "16 word" "8 word"
  | APU_ClearSample
  | APU_SetCallback
  | APU_SetupSound uint nat machine_t
  | APU_SetChipLevel chip_level_t real
  | APU_SetupMixer uint uint uint uint
  | APU_WriteSample
  | APU_SetExternalSound uint
  | APU_NoteRegisters chan_id_t stChanNote

datatype device_call =
    DSound_SetupDevice uint
  | DSound_OpenChannel uint uint nat uint uint
  | DSound_CloseDevice
  | Audio_CloseAudioDevice
  | Audio_Reset
  | Visualizer_SetSampleRate uint
  | Visualizer_ReportAudioProblem

datatype driver_call =
    Driver_StartPlayer CPlayerCursor
  | Driver_StopPlayer
  | Driver_ResetTracks
  | Driver_Tick
  | Driver_UpdateAPU uint
  | Driver_QueueNote chan_id_t stChanNote note_prio_t
  | Driver_LoadSoundState nat nat nat
  | Tempo_LoadTempo nat

datatype recorder_call =
    Recorder_StartRecording
  | Recorder_StopRecording
  | Recorder_RecordInstrument nat
  | Recorder_SetDumpCount nat
  | Recorder_ReleaseCurrent
  | Recorder_ResetRecordCache

datatype ui_call =
    AfxMessageBox message_id
  | View_MakeSilent
  | MIDI_WriteNote nat nat nat nat
  | Renderer_Start
  | Renderer_SetOutputFile string
  | Renderer_Tick
  | TempoDisplay_Tick
  | Arpeggiator_Clear
  | Arpeggiator_Tick chan_id_t
  | Event_SetEvent

datatype call =
    APU_call apu_call
  | Device_call device_call
  | Driver_call driver_call
  | Recorder_call recorder_call
  | UI_call ui_call

text \<open>
  The collaborators. What they answer to \<open>SoundGen.cpp\<close> is a field; answers that
  depend on the machine (which devices exist, whether a device or a file opens) are
  functions stored in the record.
\<close>

record CDSound =
  DeviceCount :: uint
  SetupDevice_ok :: "uint \<Rightarrow> bool"
  OpenChannel_ok :: "uint \<Rightarrow> uint \<Rightarrow> nat \<Rightarrow> uint \<Rightarrow> uint \<Rightarrow> bool"

record CAudioDriver =
  AudioDeviceOpen :: bool

record CFamiTrackerDoc =
  FileLoaded :: bool
  Channels :: "chan_id_t list"
  ActiveNote :: "nat \<Rightarrow> nat \<Rightarrow> chan_id_t \<Rightarrow> nat \<Rightarrow> stChanNote"
  ChannelIndex :: "chan_id_t \<Rightarrow> nat"
  HighlightFirst :: "nat \<Rightarrow> int"
  HighlightAtFirst :: "nat \<Rightarrow> nat \<Rightarrow> nat \<Rightarrow> int"

record CFamiTrackerView =
  SelectedPos :: "nat \<times> nat"
  SelectedChannelID :: chan_id_t

record CInstrumentRecorder =
  RecordChannel :: chan_id_t

text \<open>
  Modelled from the spec: the wave renderer (\<open>WaveRenderer.h\<close> is not among the
  sources). \<open>Start()\<close> opens the sink and makes the session started; \<open>Started\<close>,
  \<open>Finished\<close>, \<open>ShouldStopRender\<close>, \<open>ShouldStartPlayer\<close> and \<open>GetRenderTrack\<close> are
  what the renderer answers when \<open>SoundGen.cpp\<close> asks.
\<close>

record CWaveRenderer =
  Started :: bool
  Finished :: bool
  ShouldStopRender :: bool
  ShouldStartPlayer :: bool
  RenderTrack :: nat

text \<open>
  Modelled from the spec: the sound driver (\<open>SoundDriver.h\<close> is not among the
  sources). It is playing between \<open>StartPlayer\<close> and \<open>StopPlayer\<close> and owns the cursor
  meanwhile. \<open>QueueNote\<close> keeps one pending note per channel, where a note of lower
  priority than the pending one is dropped and an equal or higher one replaces it;
  \<open>Tick\<close> applies the pending notes at the tick boundary, turning those of the channels
  that are not muted into register changes; \<open>UpdateAPU\<close> pushes the accumulated register
  changes into the APU. The decoding of rows from song data is not modelled. \<open>ShouldHalt\<close> is what the driver
  answers when asked.
\<close>

record CSoundDriver =
  Playing :: bool
  PlayerCursor :: "CPlayerCursor option"
  ShouldHalt :: bool
  QueuedNotes :: "(chan_id_t \<times> stChanNote \<times> note_prio_t) list"
  RegisterChanges :: "(chan_id_t \<times> stChanNote) list"

text \<open>
  Modelled from the spec: the APU (\<open>APU/APU.h\<close> is not among the sources). It holds the
  register image, which \<open>Reset\<close> sets to the power-on image and \<open>Write\<close> updates at one
  address, and the mixing level of each chip. \<open>SetupSound_ok\<close> is what \<open>SetupSound\<close>
  answers for a sample rate; \<open>SNDCHIP_MMC5\<close> is the chip mask of \<open>APU.h\<close>.
\<close>

record CAPU =
  Regs :: "16 word \<Rightarrow> 8 word"
  PowerOn :: "16 word \<Rightarrow> 8 word"
  ChipLevel :: "chip_level_t \<Rightarrow> real"
  SetupSound_ok :: "uint \<Rightarrow> bool"
  SNDCHIP_MMC5 :: uint

text \<open>
  Modelled from the spec: the tempo display (\<open>TempoDisplay.h\<close> is not among the
  sources): a fixed-size history of the most recent per-tick tempo samples, newest
  first, whose mean is the averaged BPM.
\<close>

record CTempoDisplay =
  CacheSize :: nat
  History :: "real list"

text \<open>The members of \<open>CSoundGen\<close>, the settings, the thread's message queue and the call log.\<close>

record CSoundGen =
  m_hThread :: bool
  m_pDocument :: "CFamiTrackerDoc option"
  m_pTrackerView :: "CFamiTrackerView option"
  m_pDSound :: "CDSound option"
  m_pAudioDriver :: "CAudioDriver option"
  m_pWaveRenderer :: "CWaveRenderer option"
  m_pTempoDisplay :: "CTempoDisplay option"
  m_pVisualizerWnd :: bool
  m_pPreviewSample :: "uint option"
  m_hInterruptEvent :: bool
  m_pSoundDriver :: CSoundDriver
  m_pAPU :: CAPU
  m_pInstRecorder :: CInstrumentRecorder
  m_pTempoCounter :: real
  m_bHaltRequest :: bool
  m_bPlayingSingleRow :: bool
  m_iLastTrack :: nat
  m_iLastHighlight :: int
  m_iMachineType :: machine_t
  m_iUpdateCycles :: uint
  m_iFrameCounter :: uint
  m_bWaveChanged :: bool
  m_bInternalWaveChanged :: bool
  muted :: "bool list"
  theApp_Settings :: CSettings
  MessageQueue :: "thread_msg list"
  Calls :: "call list"

section \<open>Primitive steps\<close>

definition note_call :: "call \<Rightarrow> CSoundGen \<Rightarrow> CSoundGen" where
  "note_call c s = s\<lparr>Calls := Calls s @ [c]\<rparr>"

text \<open>\<open>run\<close> executes a list of statements in program order.\<close>

definition run :: "('s \<Rightarrow> 's) list \<Rightarrow> 's \<Rightarrow> 's" where
  "run fs s = fold (\<lambda>f. f) fs s"

definition PostThreadMessage :: "thread_msg \<Rightarrow> CSoundGen \<Rightarrow> CSoundGen" where
  "PostThreadMessage m s = s\<lparr>MessageQueue := MessageQueue s @ [m]\<rparr>"

subsection \<open>The APU\<close>

text \<open>
  Modelled from the spec: \<open>CAPU::Reset\<close> (\<open>APU.cpp\<close> is not among the sources) puts all channels
  back to the power-on state: the register image becomes the power-on image.
\<close>

definition CAPU_Reset :: "CSoundGen \<Rightarrow> CSoundGen" where
  "CAPU_Reset s =
     note_call (APU_call APU_Reset) (s\<lparr>m_pAPU := (m_pAPU s)\<lparr>Regs := PowerOn (m_pAPU s)\<rparr>\<rparr>)"

text \<open>
  Modelled from the spec: \<open>CAPU::Write\<close> accepts a register write: the image holds the value at the
  address.
\<close>

definition CAPU_Write :: "16 word \<Rightarrow> 8 word \<Rightarrow> CSoundGen \<Rightarrow> CSoundGen" where
  "CAPU_Write a v s =
     note_call (APU_call (APU_Write a v))
       (s\<lparr>m_pAPU := (m_pAPU s)\<lparr>Regs := (Regs (m_pAPU s))(a := v)\<rparr>\<rparr>)"

text \<open>
  Modelled from the spec: \<open>CAPU::ClearSample\<close> drops the preview sample; the register image is not
  touched.
\<close>

definition CAPU_ClearSample :: "CSoundGen \<Rightarrow> CSoundGen" where
  "CAPU_ClearSample s = note_call (APU_call APU_ClearSample) s"

text \<open>
  Modelled from the spec: \<open>CAPU::SetChipLevel\<close> adjusts the output mixing level of one chip.
\<close>

definition CAPU_SetChipLevel :: "chip_level_t \<Rightarrow> real \<Rightarrow> CSoundGen \<Rightarrow> CSoundGen" where
  "CAPU_SetChipLevel chip level s =
     note_call (APU_call (APU_SetChipLevel chip level))
       (s\<lparr>m_pAPU := (m_pAPU s)\<lparr>ChipLevel := (ChipLevel (m_pAPU s))(chip := level)\<rparr>\<rparr>)"

subsection \<open>The audio driver\<close>

text \<open>
  Modelled from the spec: \<open>CAudioDriver::CloseAudioDevice\<close> (\<open>AudioDriver.cpp\<close> is not among the
  sources) closes the device channel: the audio device is not open afterwards.
\<close>

definition CAudioDriver_CloseAudioDevice :: "CSoundGen \<Rightarrow> CSoundGen" where
  "CAudioDriver_CloseAudioDevice s =
     note_call (Device_call Audio_CloseAudioDevice)
       (s\<lparr>m_pAudioDriver := map_option (\<lambda>a. a\<lparr>AudioDeviceOpen := False\<rparr>) (m_pAudioDriver s)\<rparr>)"

subsection \<open>The sound driver\<close>

text \<open>
  Modelled from the spec: \<open>CSoundDriver::StartPlayer\<close> (\<open>SoundDriver.cpp\<close> is not among the sources)
  takes the cursor and begins sequencing: the driver is playing afterwards.
\<close>

definition CSoundDriver_StartPlayer :: "CPlayerCursor \<Rightarrow> CSoundGen \<Rightarrow> CSoundGen" where
  "CSoundDriver_StartPlayer Pos s =
     note_call (Driver_call (Driver_StartPlayer Pos))
       (s\<lparr>m_pSoundDriver := (m_pSoundDriver s)\<lparr>Playing := True, PlayerCursor := Some Pos\<rparr>\<rparr>)"

text \<open>
  Modelled from the spec: \<open>CSoundDriver::StopPlayer\<close> halts playback and destroys the cursor.
\<close>

definition CSoundDriver_StopPlayer :: "CSoundGen \<Rightarrow> CSoundGen" where
  "CSoundDriver_StopPlayer s =
     note_call (Driver_call Driver_StopPlayer)
       (s\<lparr>m_pSoundDriver := (m_pSoundDriver s)\<lparr>Playing := False, PlayerCursor := None\<rparr>\<rparr>)"

text \<open>
  Modelled from the spec: the order of the note priorities of \<open>TrackerChannel.h\<close> (not among the
  sources), and the pending note of a channel in the driver.
\<close>

fun prio_rank :: "note_prio_t \<Rightarrow> nat" where
  "prio_rank NOTE_PRIO_0 = 0"
| "prio_rank NOTE_PRIO_1 = 1"
| "prio_rank NOTE_PRIO_2 = 2"

definition pending_note ::
  "(chan_id_t \<times> stChanNote \<times> note_prio_t) list \<Rightarrow> chan_id_t \<Rightarrow> (stChanNote \<times> note_prio_t) option" where
  "pending_note q c = map_of q c"

text \<open>
  Modelled from the spec: \<open>CSoundDriver::QueueNote\<close>: a note of higher priority than the pending note
  of the same channel overrides it, one of equal priority also (last write wins), one of
  lower priority is dropped.
\<close>

definition CSoundDriver_QueueNote ::
  "chan_id_t \<Rightarrow> stChanNote \<Rightarrow> note_prio_t \<Rightarrow> CSoundGen \<Rightarrow> CSoundGen" where
  "CSoundDriver_QueueNote c n p s =
     (let d = m_pSoundDriver s;
          keep = (case pending_note (QueuedNotes d) c of
                    None \<Rightarrow> False
                  | Some (n', p') \<Rightarrow> prio_rank p < prio_rank p');
          q = (if keep then QueuedNotes d
               else filter (\<lambda>e. fst e \<noteq> c) (QueuedNotes d) @ [(c, n, p)])
      in note_call (Driver_call (Driver_QueueNote c n p))
           (s\<lparr>m_pSoundDriver := d\<lparr>QueuedNotes := q\<rparr>\<rparr>))"

section \<open>Sound buffer handling\<close>

text \<open>
  \<open>CSoundGen::ResetAudioDevice\<close>. The block count: \<open>int iBlocks = 2\<close>, and
  \<open>iBlocks += (BufferLen / 66)\<close> when \<open>BufferLen > 100\<close>, where \<open>BufferLen\<close> is unsigned.
\<close>

definition ResetAudioDevice_iBlocks :: "uint \<Rightarrow> uint" where
  "ResetAudioDevice_iBlocks BufferLen =
     (if 100 < BufferLen then 2 + BufferLen div 66 else 2)"

text \<open>
  Single precision (\<open>float\<close>, IEEE 754 binary32), as far as the chip levels need it. A
  \<open>float\<close> is a real number here, a multiple of the quantum of its binade: the
  significand has 24 bits, so in the binade of exponent \<open>e\<close> (\<open>2^e \<le> |x| < 2^(e+1)\<close>, with
  \<open>e\<close> at least \<open>-126\<close>, below which the numbers are subnormal, and at most \<open>127\<close>) the
  quantum is \<open>2^(e-23)\<close>. An operation gives the exact result rounded to the nearest
  multiple, a tie to the even one. Overflow to infinity (from \<open>2^128\<close> on) is not
  modelled: the arguments below are 32-bit integers and their tenths.
\<close>

definition pow2 :: "int \<Rightarrow> real" where
  "pow2 e = (if 0 \<le> e then 2 ^ nat e else 1 / 2 ^ nat (- e))"

fun float_exponent_from :: "nat \<Rightarrow> int \<Rightarrow> real \<Rightarrow> int" where
  "float_exponent_from 0 e x = e"
| "float_exponent_from (Suc k) e x =
     (if pow2 (e + 1) \<le> x then float_exponent_from k (e + 1) x else e)"

definition float_exponent :: "real \<Rightarrow> int" where
  "float_exponent x = float_exponent_from 253 (- 126) \<bar>x\<bar>"

definition round_half_even :: "real \<Rightarrow> int" where
  "round_half_even y =
     (let f = \<lfloor>y\<rfloor>; d = y - of_int f
      in if d < 1 / 2 then f else if 1 / 2 < d then f + 1 else if even f then f else f + 1)"

definition float_round :: "real \<Rightarrow> real" where
  "float_round x =
     (let q = pow2 (float_exponent x - 23) in of_int (round_half_even (x / q)) * q)"

text \<open>
  The eight \<open>SetChipLevel\<close> calls: each passes \<open>float(iLevel / 10.0f)\<close>. The signed
  setting is converted to \<open>float\<close> (the usual arithmetic conversion of \<open>int / float\<close>),
  and the quotient by \<open>10.0f\<close> is a single-precision division; the cast to \<open>float\<close>
  changes nothing. (An implementation that evaluates the quotient in a wider format
  before the cast is not modelled.)
\<close>

definition chip_level_arg :: "uint \<Rightarrow> real" where
  "chip_level_arg iLevel = float_round (float_round (of_int (sint iLevel)) / 10)"

definition ResetAudioDevice_levels :: "CSoundGen \<Rightarrow> CSoundGen" where
  "ResetAudioDevice_levels s =
     (let L = ChipLevels (theApp_Settings s)
      in run [
        CAPU_SetChipLevel CHIP_LEVEL_APU1 (chip_level_arg (iLevelAPU1 L)),
        CAPU_SetChipLevel CHIP_LEVEL_APU2 (chip_level_arg (iLevelAPU2 L)),
        CAPU_SetChipLevel CHIP_LEVEL_VRC6 (chip_level_arg (iLevelVRC6 L)),
        CAPU_SetChipLevel CHIP_LEVEL_VRC7 (chip_level_arg (iLevelVRC7 L)),
        CAPU_SetChipLevel CHIP_LEVEL_MMC5 (chip_level_arg (iLevelMMC5 L)),
        CAPU_SetChipLevel CHIP_LEVEL_FDS (chip_level_arg (iLevelFDS L)),
        CAPU_SetChipLevel CHIP_LEVEL_N163 (chip_level_arg (iLevelN163 L)),
        CAPU_SetChipLevel CHIP_LEVEL_S5B (chip_level_arg (iLevelS5B L))] s)"

text \<open>
  The function dereferences \<open>m_pDSound\<close> (asserted non-null): without the object there is
  no result. Otherwise the result is the returned flag and the new state.
\<close>

definition ResetAudioDevice :: "CSoundGen \<Rightarrow> (bool \<times> CSoundGen) option" where
  "ResetAudioDevice s =
     (case m_pDSound s of
        None \<Rightarrow> None
      | Some ds \<Rightarrow>
          let Snd = Sound (theApp_Settings s);
              SampleSize = iSampleSize Snd;
              SampleRate = iSampleRate Snd;
              BufferLen = iBufferLength Snd;
              s1 = (if m_pAudioDriver s \<noteq> None then CAudioDriver_CloseAudioDevice s else s);
              invalid = (DeviceCount ds \<le> iDevice Snd);
              Device = (if invalid then 0 else iDevice Snd);
              s2 = (if invalid
                    then s1\<lparr>theApp_Settings :=
                            (theApp_Settings s1)\<lparr>Sound := (Sound (theApp_Settings s1))\<lparr>iDevice := 0\<rparr>\<rparr>\<rparr>
                    else s1);
              s3 = note_call (Device_call (DSound_SetupDevice Device)) s2
          in if \<not> SetupDevice_ok ds Device
             then Some (False, note_call (UI_call (AfxMessageBox IDS_DSOUND_ERROR)) s3)
             else
               let iBlocks = ResetAudioDevice_iBlocks BufferLen;
                   opened = OpenChannel_ok ds SampleRate SampleSize 1 BufferLen iBlocks;
                   s4 = (note_call (Device_call (DSound_OpenChannel SampleRate SampleSize 1 BufferLen iBlocks)) s3)
                          \<lparr>m_pAudioDriver := Some \<lparr>AudioDeviceOpen = opened\<rparr>\<rparr>
               in if \<not> opened
                  then Some (False, note_call (UI_call (AfxMessageBox IDS_DSOUND_BUFFER_ERROR)) s4)
                  else
                    let s5 = (if m_pVisualizerWnd s4
                              then note_call (Device_call (Visualizer_SetSampleRate SampleRate)) s4
                              else s4);
                        s6 = note_call (APU_call APU_SetCallback) s5;
                        s7 = note_call (APU_call (APU_SetupSound SampleRate 1 (m_iMachineType s6))) s6
                    in if \<not> SetupSound_ok (m_pAPU s7) SampleRate
                       then Some (False, s7)
                       else Some (True,
                              note_call (APU_call (APU_SetupMixer (iBassFilter Snd) (iTrebleFilter Snd)
                                                     (iTrebleDamping Snd) (iMixVolume Snd)))
                                (ResetAudioDevice_levels s7)))"

definition CloseAudio :: "CSoundGen \<Rightarrow> CSoundGen" where
  "CloseAudio s =
     (let s1 = (if m_pAudioDriver s \<noteq> None
                then (CAudioDriver_CloseAudioDevice s)\<lparr>m_pAudioDriver := None\<rparr> else s);
          s2 = (if m_pDSound s1 \<noteq> None
                then (note_call (Device_call DSound_CloseDevice) s1)\<lparr>m_pDSound := None\<rparr> else s1)
      in if m_hInterruptEvent s2 then s2\<lparr>m_hInterruptEvent := False\<rparr> else s2)"

definition ResetBuffer :: "CSoundGen \<Rightarrow> CSoundGen option" where
  "ResetBuffer s =
     (case m_pAudioDriver s of
        None \<Rightarrow> None
      | Some a \<Rightarrow> Some (CAPU_Reset (note_call (Device_call Audio_Reset) s)))"

section \<open>Tracker playing routines\<close>

definition DEFAULT_AVERAGE_BPM_SIZE :: nat where
  "DEFAULT_AVERAGE_BPM_SIZE = 24"

definition IsPlaying :: "CSoundGen \<Rightarrow> bool" where
  "IsPlaying s = Playing (m_pSoundDriver s)"

definition GetPlayerPos :: "CSoundGen \<Rightarrow> nat \<times> nat" where
  "GetPlayerPos s =
     (case PlayerCursor (m_pSoundDriver s) of
        Some cursor \<Rightarrow> (CurrentFrame cursor, CurrentRow cursor)
      | None \<Rightarrow> (0, 0))"

definition GetPlayerTrack :: "CSoundGen \<Rightarrow> nat" where
  "GetPlayerTrack s = m_iLastTrack s"

definition GetPlayerTicks :: "CSoundGen \<Rightarrow> nat" where
  "GetPlayerTicks s =
     (case PlayerCursor (m_pSoundDriver s) of
        Some cursor \<Rightarrow> TotalTicks cursor
      | None \<Rightarrow> 0)"

definition ResetAPU :: "CSoundGen \<Rightarrow> CSoundGen" where
  "ResetAPU = run [
     CAPU_Reset,
     CAPU_Write 0x4015 0x0F,
     CAPU_Write 0x4017 0x00,
     CAPU_Write 0x4023 0x02,
     CAPU_Write 0x5015 0x03,
     CAPU_ClearSample]"

definition MakeSilent :: "CSoundGen \<Rightarrow> CSoundGen" where
  "MakeSilent = run [
     (\<lambda>s. if m_pTrackerView s \<noteq> None then note_call (UI_call View_MakeSilent) s else s),
     note_call (UI_call Arpeggiator_Clear),
     CAPU_Reset,
     CAPU_ClearSample,
     note_call (Driver_call Driver_ResetTracks)]"

definition ResetTempo :: "CSoundGen \<Rightarrow> CSoundGen" where
  "ResetTempo s =
     (case m_pDocument s of
        None \<Rightarrow> s
      | Some doc \<Rightarrow>
          (note_call (Driver_call (Tempo_LoadTempo (m_iLastTrack s))) s)
            \<lparr>m_iLastHighlight := HighlightFirst doc (m_iLastTrack s)\<rparr>)"

text \<open>
  \<open>ApplyGlobalState\<close> reads the position from the player cursor when playing and from the
  view otherwise; it dereferences the view and the document without a check.
\<close>

definition ApplyGlobalState :: "CSoundGen \<Rightarrow> CSoundGen option" where
  "ApplyGlobalState s =
     (case (if IsPlaying s then Some (GetPlayerPos s)
            else map_option SelectedPos (m_pTrackerView s)) of
        None \<Rightarrow> None
      | Some (Frame, Row) \<Rightarrow>
          (case m_pDocument s of
             None \<Rightarrow> None
           | Some doc \<Rightarrow>
               Some ((note_call (Driver_call (Driver_LoadSoundState (GetPlayerTrack s) Frame Row)) s)
                       \<lparr>m_iLastHighlight := HighlightAtFirst doc (GetPlayerTrack s) Frame Row\<rparr>)))"

definition BeginPlayer :: "CPlayerCursor \<Rightarrow> CSoundGen \<Rightarrow> CSoundGen option" where
  "BeginPlayer Pos s =
     (case m_pDocument s of
        None \<Rightarrow> Some s
      | Some doc \<Rightarrow>
          (case m_pAudioDriver s of
             None \<Rightarrow> None
           | Some a \<Rightarrow>
               if \<not> AudioDeviceOpen a \<or> \<not> FileLoaded doc then Some s
               else
                 let s1 = CSoundDriver_StartPlayer Pos s;
                     s2 = s1\<lparr>m_bHaltRequest := False, m_bPlayingSingleRow := False,
                             m_iLastTrack := CurrentSong Pos\<rparr>;
                     s3 = (if bAverageBPM (theApp_Settings s2)
                           then s2\<lparr>m_pTempoDisplay :=
                                     Some \<lparr>CacheSize = DEFAULT_AVERAGE_BPM_SIZE, History = []\<rparr>\<rparr>
                           else s2);
                     s4 = MakeSilent (ResetAPU (ResetTempo s3))
                 in (case (if bRetrieveChanState (theApp_Settings s4)
                           then ApplyGlobalState s4 else Some s4) of
                       None \<Rightarrow> None
                     | Some s5 \<Rightarrow>
                         Some (if RecordChannel (m_pInstRecorder s5) \<noteq> NONE
                               then note_call (Recorder_call Recorder_StartRecording) s5
                               else s5))))"

definition HaltPlayer :: "CSoundGen \<Rightarrow> CSoundGen" where
  "HaltPlayer = run [
     MakeSilent,
     CAPU_ClearSample,
     (\<lambda>s. if m_pTrackerView s \<noteq> None
          then note_call (Recorder_call Recorder_StopRecording) s else s),
     CSoundDriver_StopPlayer,
     (\<lambda>s. s\<lparr>m_bHaltRequest := False, m_bPlayingSingleRow := False, m_pTempoDisplay := None\<rparr>)]"

section \<open>File rendering\<close>

definition is_rendering_impl :: "CSoundGen \<Rightarrow> bool" where
  "is_rendering_impl s =
     (case m_pWaveRenderer s of None \<Rightarrow> False | Some r \<Rightarrow> Started r \<and> \<not> Finished r)"

definition IsRendering :: "CSoundGen \<Rightarrow> bool" where
  "IsRendering s = is_rendering_impl s"

definition StartRendering :: "CSoundGen \<Rightarrow> CSoundGen option" where
  "StartRendering s =
     (case ResetBuffer s of
        None \<Rightarrow> None
      | Some s1 \<Rightarrow>
          (case m_pWaveRenderer s1 of
             None \<Rightarrow> None
           | Some r \<Rightarrow>
               Some (note_call (UI_call Renderer_Start)
                       (s1\<lparr>m_pWaveRenderer := Some (r\<lparr>Started := True\<rparr>)\<rparr>))))"

definition StopRendering :: "CSoundGen \<Rightarrow> CSoundGen option" where
  "StopRendering s =
     (if \<not> is_rendering_impl s then Some s
      else (case ResetBuffer (s\<lparr>m_pWaveRenderer := None\<rparr>) of
              None \<Rightarrow> None
            | Some s1 \<Rightarrow> Some (ResetAPU (HaltPlayer s1))))"

section \<open>Interface functions, called from the main thread\<close>

definition StartPlayer :: "CPlayerCursor \<Rightarrow> CSoundGen \<Rightarrow> CSoundGen" where
  "StartPlayer Pos s = (if \<not> m_hThread s then s else PostThreadMessage (WM_USER_PLAY Pos) s)"

definition StopPlayer :: "CSoundGen \<Rightarrow> CSoundGen" where
  "StopPlayer s = (if \<not> m_hThread s then s else PostThreadMessage WM_USER_STOP s)"

text \<open>
  \<open>CSoundGen::WaitForStop\<close>: \<open>for (int i = 0; i < 40 && IsPlaying(); ++i) Sleep(100);\<close>
  then \<open>return !IsPlaying();\<close>. The caller is the main thread; while it sleeps the
  player thread runs. \<open>Sleep i s\<close> is the state of the object when the \<open>i\<close>-th
  \<open>Sleep(100)\<close> returns, started in state \<open>s\<close>: it is a parameter, so that every
  behaviour of the player thread is covered. The result is the returned flag, the
  number of \<open>Sleep(100)\<close> calls made, and the state at the return.
\<close>

function WaitForStop_loop ::
  "(nat \<Rightarrow> CSoundGen \<Rightarrow> CSoundGen) \<Rightarrow> nat \<Rightarrow> CSoundGen \<Rightarrow> nat \<times> CSoundGen" where
  "WaitForStop_loop Sleep i s =
     (if i < 40 \<and> IsPlaying s then WaitForStop_loop Sleep (i + 1) (Sleep i s) else (i, s))"
  by pat_completeness auto
termination
  by (relation "measure (\<lambda>(Sleep, i, s). 40 - i)") auto

declare WaitForStop_loop.simps [simp del]

definition WaitForStop ::
  "(nat \<Rightarrow> CSoundGen \<Rightarrow> CSoundGen) \<Rightarrow> CSoundGen \<Rightarrow> bool \<times> nat \<times> CSoundGen" where
  "WaitForStop Sleep s =
     (case WaitForStop_loop Sleep 0 s of (i, s') \<Rightarrow> (\<not> IsPlaying s', i, s'))"

text \<open>
  \<open>CSoundGen::RenderToFile\<close>. \<open>OpenFile_ok\<close> is what \<open>CWaveFile::OpenFile\<close> answers for
  a path, sample rate, sample size and channel count. \<open>RenderToFile_halt\<close> is the
  statement \<open>if (IsPlaying()) { m_bHaltRequest = true; WaitForStop(); }\<close>, whose result
  the source does not use.
\<close>

definition RenderToFile_halt :: "(nat \<Rightarrow> CSoundGen \<Rightarrow> CSoundGen) \<Rightarrow> CSoundGen \<Rightarrow> CSoundGen" where
  "RenderToFile_halt Sleep s =
     (if IsPlaying s
      then snd (snd (WaitForStop Sleep (s\<lparr>m_bHaltRequest := True\<rparr>)))
      else s)"

definition RenderToFile ::
  "(nat \<Rightarrow> CSoundGen \<Rightarrow> CSoundGen) \<Rightarrow> (string \<Rightarrow> uint \<Rightarrow> uint \<Rightarrow> nat \<Rightarrow> bool) \<Rightarrow>
   string \<Rightarrow> CWaveRenderer option \<Rightarrow> CSoundGen \<Rightarrow> bool \<times> CSoundGen" where
  "RenderToFile Sleep OpenFile_ok pFile pRender s =
     (case pRender of
        None \<Rightarrow> (False, s)
      | Some r \<Rightarrow>
          let s1 = RenderToFile_halt Sleep s;
              s2 = s1\<lparr>m_pWaveRenderer := Some r\<rparr>;
              Snd = Sound (theApp_Settings s2)
          in if OpenFile_ok pFile (iSampleRate Snd) (iSampleSize Snd) 1
             then (True, PostThreadMessage WM_USER_START_RENDER
                           (note_call (UI_call (Renderer_SetOutputFile pFile)) s2))
             else (False, note_call (UI_call (AfxMessageBox IDS_FILE_OPEN_ERROR)) (StopPlayer s2)))"

section \<open>Channel muting, note queue and instrument recorder\<close>

text \<open>
  Modelled from the spec: the instrument recorder (\<open>InstrumentRecorder.cpp\<close> is not among the
  sources) holds the armed record channel, \<open>NONE\<close> when none is armed;
  \<open>GetRecordChannel\<close> and \<open>SetRecordChannel\<close> of \<open>CSoundGen\<close> pass through to it.
\<close>

definition GetRecordChannel :: "CSoundGen \<Rightarrow> chan_id_t" where
  "GetRecordChannel s = RecordChannel (m_pInstRecorder s)"

definition SetRecordChannel :: "chan_id_t \<Rightarrow> CSoundGen \<Rightarrow> CSoundGen" where
  "SetRecordChannel Channel s = s\<lparr>m_pInstRecorder := (m_pInstRecorder s)\<lparr>RecordChannel := Channel\<rparr>\<rparr>"

text \<open>
  \<open>muted_[value_cast(chan)]\<close> indexes the member array \<open>muted_\<close> (here \<open>muted\<close>), which
  has one entry per channel. An index
  outside the array (in particular that of \<open>NONE\<close>) has no defined result.
\<close>

definition muted_index :: "CSoundGen \<Rightarrow> chan_id_t \<Rightarrow> nat option" where
  "muted_index s chan =
     (case chan of
        CHANID n \<Rightarrow> if n < length (muted s) then Some n else None
      | NONE \<Rightarrow> None)"

definition SetChannelMute :: "chan_id_t \<Rightarrow> bool \<Rightarrow> CSoundGen \<Rightarrow> CSoundGen option" where
  "SetChannelMute chan mute s =
     (case muted_index s chan of
        None \<Rightarrow> None
      | Some i \<Rightarrow>
          let s1 = s\<lparr>muted := (muted s)[i := mute]\<rparr>
          in Some (if mute \<and> chan = GetRecordChannel s1 then SetRecordChannel NONE s1 else s1))"

definition IsChannelMuted :: "chan_id_t \<Rightarrow> CSoundGen \<Rightarrow> bool option" where
  "IsChannelMuted chan s = map_option (\<lambda>i. muted s ! i) (muted_index s chan)"

definition QueueNote ::
  "chan_id_t \<Rightarrow> stChanNote \<Rightarrow> note_prio_t \<Rightarrow> CSoundGen \<Rightarrow> CSoundGen option" where
  "QueueNote Channel NoteData Priority s =
     (case m_pDocument s of
        None \<Rightarrow> None
      | Some doc \<Rightarrow>
          Some (note_call (UI_call (MIDI_WriteNote (ChannelIndex doc Channel)
                                      (Note NoteData) (Octave NoteData) (Vol NoteData)))
                  (CSoundDriver_QueueNote Channel NoteData Priority s)))"

text \<open>The body of \<open>ForeachChannel\<close> in \<open>PlaySingleRow\<close>, over the document's channels in order.\<close>

fun PlaySingleRow_channels ::
  "CFamiTrackerDoc \<Rightarrow> nat \<Rightarrow> nat \<Rightarrow> nat \<Rightarrow> chan_id_t list \<Rightarrow> CSoundGen \<Rightarrow> CSoundGen option" where
  "PlaySingleRow_channels doc track frame row [] s = Some s"
| "PlaySingleRow_channels doc track frame row (i # rest) s =
     (case IsChannelMuted i s of
        None \<Rightarrow> None
      | Some is_muted \<Rightarrow>
          if \<not> is_muted
          then (case QueueNote i (ActiveNote doc track frame i row) NOTE_PRIO_1 s of
                  None \<Rightarrow> None
                | Some s' \<Rightarrow> PlaySingleRow_channels doc track frame row rest s')
          else PlaySingleRow_channels doc track frame row rest s)"

definition PlaySingleRow :: "nat \<Rightarrow> CSoundGen \<Rightarrow> CSoundGen option" where
  "PlaySingleRow track s =
     (let s1 = s\<lparr>m_iLastTrack := track\<rparr>
      in case (if \<not> m_bPlayingSingleRow s1
               then map_option (\<lambda>t. t\<lparr>m_bPlayingSingleRow := True\<rparr>) (ApplyGlobalState s1)
               else Some s1) of
           None \<Rightarrow> None
         | Some s2 \<Rightarrow>
             (case m_pTrackerView s2 of
                None \<Rightarrow> None
              | Some v \<Rightarrow>
                  (case m_pDocument s2 of
                     None \<Rightarrow> None
                   | Some doc \<Rightarrow>
                       PlaySingleRow_channels doc track (fst (SelectedPos v)) (snd (SelectedPos v))
                         (Channels doc) s2)))"

subsection \<open>The tick of the sound driver\<close>

text \<open>
  Modelled from the spec: \<open>CSoundDriver::Tick\<close> (\<open>SoundDriver.cpp\<close> is not among the sources)
  applies the notes that were deferred to the tick boundary; they become register
  changes. A note queued on a muted channel must never reach the APU as a register
  write: the driver, which is constructed with a pointer to the sound generator
  (\<open>std::make_unique<CSoundDriver>(this)\<close>), asks \<open>IsChannelMuted\<close> and drops the pending
  note of a channel that is muted, or that is not in the array. Rows of the song are not
  decoded here.
\<close>

definition CSoundDriver_Tick :: "CSoundGen \<Rightarrow> CSoundGen" where
  "CSoundDriver_Tick s =
     (let d = m_pSoundDriver s;
          applied = filter (\<lambda>(c, n, p). IsChannelMuted c s = Some False) (QueuedNotes d)
      in note_call (Driver_call Driver_Tick)
           (s\<lparr>m_pSoundDriver := d\<lparr>
                 RegisterChanges := RegisterChanges d @ map (\<lambda>(c, n, p). (c, n)) applied,
                 QueuedNotes := []\<rparr>\<rparr>))"

text \<open>
  Modelled from the spec: \<open>CSoundDriver::UpdateAPU\<close> pushes the accumulated register changes into
  the APU, as register writes.
\<close>

definition CSoundDriver_UpdateAPU :: "uint \<Rightarrow> CSoundGen \<Rightarrow> CSoundGen" where
  "CSoundDriver_UpdateAPU cycles s =
     (let d = m_pSoundDriver s
      in (s\<lparr>m_pSoundDriver := d\<lparr>RegisterChanges := []\<rparr>,
             Calls := Calls s @ [Driver_call (Driver_UpdateAPU cycles)]
                      @ map (\<lambda>(c, n). APU_call (APU_NoteRegisters c n)) (RegisterChanges d)\<rparr>))"

section \<open>The player thread\<close>

text \<open>
  \<open>PlayPreviewSample\<close> dereferences \<open>m_pPreviewSample\<close>; its size is a 32-bit \<open>size_t\<close>.
  The values written are cut to the eight bits of a register.
\<close>

definition PlayPreviewSample :: "uint \<Rightarrow> uint \<Rightarrow> CSoundGen \<Rightarrow> CSoundGen option" where
  "PlayPreviewSample Offset Pitch s =
     (case m_pPreviewSample s of
        None \<Rightarrow> None
      | Some sample_size \<Rightarrow>
          let Loop = (0 :: uint);
              Length = drop_bit 4 (sample_size - 1) - push_bit 2 Offset
          in Some (run [
               (\<lambda>t. note_call (APU_call APU_WriteSample) (t\<lparr>m_pPreviewSample := None\<rparr>)),
               CAPU_Write 0x4010 (ucast (Pitch OR Loop)),
               CAPU_Write 0x4012 (ucast Offset),
               CAPU_Write 0x4013 (ucast Length),
               CAPU_Write 0x4015 0x0F,
               CAPU_Write 0x4015 0x1F] s))"

definition UpdateAPU :: "CSoundGen \<Rightarrow> CSoundGen" where
  "UpdateAPU s =
     CSoundDriver_UpdateAPU (m_iUpdateCycles s)
       (s\<lparr>m_bInternalWaveChanged := m_bWaveChanged s, m_bWaveChanged := False\<rparr>)"

definition CPlayerCursor_new :: "nat \<Rightarrow> CPlayerCursor" where
  "CPlayerCursor_new Track =
     \<lparr>CurrentSong = Track, CurrentFrame = 0, CurrentRow = 0, TotalTicks = 0, QueuedFrame = None\<rparr>"

text \<open>
  \<open>CSoundGen::IdleLoop\<close>, one pass of the main loop of the player thread. It always
  returns \<open>TRUE\<close>; the model returns the new state, or nothing where the audio driver is
  dereferenced while absent.
\<close>

definition IdleLoop :: "CSoundGen \<Rightarrow> CSoundGen option" where
  "IdleLoop s =
     (case m_pDocument s of
        None \<Rightarrow> Some s
      | Some doc \<Rightarrow>
          (case m_pAudioDriver s of
             None \<Rightarrow> None
           | Some a \<Rightarrow>
               if \<not> AudioDeviceOpen a \<or> \<not> FileLoaded doc then Some s
               else
                 let s1 = CSoundDriver_Tick (s\<lparr>m_iFrameCounter := m_iFrameCounter s + 1\<rparr>)
                 in (case (case m_pWaveRenderer s1 of
                             None \<Rightarrow> Some s1
                           | Some r \<Rightarrow>
                               if ShouldStopRender r then StopRendering s1
                               else if ShouldStartPlayer r
                               then Some (StartPlayer (CPlayerCursor_new (RenderTrack r)) s1)
                               else Some s1) of
                       None \<Rightarrow> None
                     | Some s2 \<Rightarrow>
                         let s3 = UpdateAPU s2;
                             s4 = (if IsPlaying s3 \<and> RecordChannel (m_pInstRecorder s3) \<noteq> NONE
                                   then note_call (Recorder_call
                                          (Recorder_RecordInstrument (GetPlayerTicks s3))) s3
                                   else s3)
                         in Some (if ShouldHalt (m_pSoundDriver s4) \<or> m_bHaltRequest s4
                                  then HaltPlayer s4 else s4))))"

subsection \<open>Thread message handlers\<close>

definition OnStartPlayer :: "CPlayerCursor \<Rightarrow> CSoundGen \<Rightarrow> CSoundGen option" where
  "OnStartPlayer Pos s = BeginPlayer Pos s"

definition OnSilentAll :: "CSoundGen \<Rightarrow> CSoundGen option" where
  "OnSilentAll s = Some (MakeSilent s)"

definition OnLoadSettings :: "CSoundGen \<Rightarrow> CSoundGen option" where
  "OnLoadSettings s =
     (case ResetAudioDevice s of
        None \<Rightarrow> None
      | Some (ok, s1) \<Rightarrow>
          Some (if \<not> ok \<and> m_pVisualizerWnd s1
                then note_call (Device_call Visualizer_ReportAudioProblem) s1 else s1))"

definition OnStopPlayer :: "CSoundGen \<Rightarrow> CSoundGen option" where
  "OnStopPlayer s = Some (HaltPlayer s)"

definition OnResetPlayer :: "CPlayerCursor \<Rightarrow> CSoundGen \<Rightarrow> CSoundGen option" where
  "OnResetPlayer pCur s =
     (let s1 = s\<lparr>m_iLastTrack := CurrentSong pCur\<rparr>
      in if IsPlaying s1 then BeginPlayer pCur s1 else Some s1)"

definition OnStartRender :: "CSoundGen \<Rightarrow> CSoundGen option" where
  "OnStartRender s = StartRendering s"

definition OnStopRender :: "CSoundGen \<Rightarrow> CSoundGen option" where
  "OnStopRender s = StopRendering s"

definition OnPreviewSample :: "uint \<Rightarrow> uint \<Rightarrow> CSoundGen \<Rightarrow> CSoundGen option" where
  "OnPreviewSample wParam lParam s = PlayPreviewSample wParam lParam s"

definition OnWriteAPU :: "uint \<Rightarrow> uint \<Rightarrow> CSoundGen \<Rightarrow> CSoundGen option" where
  "OnWriteAPU wParam lParam s = Some (CAPU_Write (ucast wParam) (ucast lParam) s)"

definition OnCloseSound :: "bool \<Rightarrow> CSoundGen \<Rightarrow> CSoundGen option" where
  "OnCloseSound pEvent s =
     (let s1 = CloseAudio s
      in Some (if pEvent then note_call (UI_call Event_SetEvent) s1 else s1))"

definition OnSetChip :: "uint \<Rightarrow> CSoundGen \<Rightarrow> CSoundGen option" where
  "OnSetChip Chip s =
     Some (run [
       note_call (APU_call (APU_SetExternalSound Chip)),
       CAPU_Write 0x4015 0x0F,
       CAPU_Write 0x4017 0x00,
       (\<lambda>t. if Chip AND SNDCHIP_MMC5 (m_pAPU t) \<noteq> 0 then CAPU_Write 0x5015 0x03 t else t)] s)"

definition OnRemoveDocument :: "CSoundGen \<Rightarrow> CSoundGen option" where
  "OnRemoveDocument s =
     Some (run [
       (\<lambda>t. t\<lparr>m_pDocument := None, m_pTrackerView := None\<rparr>),
       note_call (Recorder_call (Recorder_SetDumpCount 0)),
       note_call (Recorder_call Recorder_ReleaseCurrent),
       note_call (Recorder_call Recorder_ResetRecordCache)] s)"

text \<open>The message map.\<close>

fun OnThreadMessage :: "thread_msg \<Rightarrow> CSoundGen \<Rightarrow> CSoundGen option" where
  "OnThreadMessage WM_USER_SILENT_ALL s = OnSilentAll s"
| "OnThreadMessage WM_USER_LOAD_SETTINGS s = OnLoadSettings s"
| "OnThreadMessage (WM_USER_PLAY Pos) s = OnStartPlayer Pos s"
| "OnThreadMessage WM_USER_STOP s = OnStopPlayer s"
| "OnThreadMessage (WM_USER_RESET pCur) s = OnResetPlayer pCur s"
| "OnThreadMessage WM_USER_START_RENDER s = OnStartRender s"
| "OnThreadMessage WM_USER_STOP_RENDER s = OnStopRender s"
| "OnThreadMessage (WM_USER_PREVIEW_SAMPLE w l) s = OnPreviewSample w l s"
| "OnThreadMessage (WM_USER_WRITE_APU w l) s = OnWriteAPU w l s"
| "OnThreadMessage (WM_USER_CLOSE_SOUND e) s = OnCloseSound e s"
| "OnThreadMessage (WM_USER_SET_CHIP w) s = OnSetChip w s"
| "OnThreadMessage WM_USER_REMOVE_DOCUMENT s = OnRemoveDocument s"

text \<open>
  The message loop of the thread is the framework's (\<open>CWinThread::Run\<close>): the pending
  messages are dispatched in the order they were posted, and when none is left
  \<open>OnIdle\<close> runs \<open>IdleLoop\<close>. \<open>PlayerThread n\<close> is \<open>n\<close> such rounds.
\<close>

fun DispatchMessages :: "thread_msg list \<Rightarrow> CSoundGen \<Rightarrow> CSoundGen option" where
  "DispatchMessages [] s = Some s"
| "DispatchMessages (m # ms) s =
     (case OnThreadMessage m s of None \<Rightarrow> None | Some s' \<Rightarrow> DispatchMessages ms s')"

definition PlayerThread_round :: "CSoundGen \<Rightarrow> CSoundGen option" where
  "PlayerThread_round s =
     (case DispatchMessages (MessageQueue s) (s\<lparr>MessageQueue := []\<rparr>) of
        None \<Rightarrow> None
      | Some s1 \<Rightarrow> IdleLoop s1)"

fun PlayerThread :: "nat \<Rightarrow> CSoundGen \<Rightarrow> CSoundGen option" where
  "PlayerThread 0 s = Some s"
| "PlayerThread (Suc n) s =
     (case PlayerThread_round s of None \<Rightarrow> None | Some s' \<Rightarrow> PlayerThread n s')"

text \<open>
  A \<open>Sleep\<close> of the main thread during which the player thread completes \<open>rounds i\<close>
  rounds (a thread that has crashed leaves the object as it is).
\<close>

definition Sleep_while_thread_runs :: "(nat \<Rightarrow> nat) \<Rightarrow> nat \<Rightarrow> CSoundGen \<Rightarrow> CSoundGen" where
  "Sleep_while_thread_runs rounds i s =
     (case PlayerThread (rounds i) s of None \<Rightarrow> s | Some s' \<Rightarrow> s')"

section \<open>Tempo display\<close>

text \<open>
  Modelled from the spec: \<open>CTempoDisplay::Tick\<close> (\<open>TempoDisplay.cpp\<close> is not among the sources) takes
  one tempo sample into the history, which keeps the most recent \<open>CacheSize\<close> samples.
\<close>

definition CTempoDisplay_Tick :: "real \<Rightarrow> CTempoDisplay \<Rightarrow> CTempoDisplay" where
  "CTempoDisplay_Tick tempo td = td\<lparr>History := take (CacheSize td) (tempo # History td)\<rparr>"

text \<open>
  Modelled from the spec: \<open>CTempoDisplay::GetAverageBPM\<close> is the mean of the samples in the history;
  with no sample taken yet there is no average.
\<close>

definition CTempoDisplay_GetAverageBPM :: "CTempoDisplay \<Rightarrow> real option" where
  "CTempoDisplay_GetAverageBPM td =
     (if History td = [] then None
      else Some (sum_list (History td) / real (length (History td))))"

text \<open>\<open>m_pTempoCounter s\<close> is what \<open>m_pTempoCounter->GetTempo()\<close> answers in state \<open>s\<close>.\<close>

definition GetAverageBPM :: "CSoundGen \<Rightarrow> real option" where
  "GetAverageBPM s =
     (case m_pTempoDisplay s of
        Some td \<Rightarrow> CTempoDisplay_GetAverageBPM td
      | None \<Rightarrow> Some (m_pTempoCounter s))"

definition OnTick :: "CSoundGen \<Rightarrow> CSoundGen option" where
  "OnTick s =
     (let s1 = (if is_rendering_impl s then note_call (UI_call Renderer_Tick) s else s);
          s2 = (case m_pTempoDisplay s1 of
                  None \<Rightarrow> s1
                | Some td \<Rightarrow>
                    note_call (UI_call TempoDisplay_Tick)
                      (s1\<lparr>m_pTempoDisplay := Some (CTempoDisplay_Tick (m_pTempoCounter s1) td)\<rparr>))
      in if bMidiArpeggio (theApp_Settings s2)
         then (case m_pTrackerView s2 of
                 None \<Rightarrow> None
               | Some v \<Rightarrow> Some (note_call (UI_call (Arpeggiator_Tick (SelectedChannelID v))) s2))
         else Some s2)"

text \<open>\<open>n\<close> ticks in a row while the tempo counter answers \<open>tempo\<close>.\<close>

fun OnTick_times :: "nat \<Rightarrow> real \<Rightarrow> CSoundGen \<Rightarrow> CSoundGen option" where
  "OnTick_times 0 tempo s = Some s"
| "OnTick_times (Suc n) tempo s =
     (case OnTick (s\<lparr>m_pTempoCounter := tempo\<rparr>) of
        None \<Rightarrow> None
      | Some s' \<Rightarrow> OnTick_times n tempo s')"

section \<open>Observations and concrete states used in the statements\<close>

text \<open>
  The calls that one run of \<open>ResetAudioDevice\<close> makes, the persisted device index it
  leaves, and the arguments of some calls.
\<close>

definition ResetAudioDevice_calls :: "CSoundGen \<Rightarrow> call list option" where
  "ResetAudioDevice_calls s =
     (case ResetAudioDevice s of
        None \<Rightarrow> None
      | Some (ok, s') \<Rightarrow> Some (drop (length (Calls s)) (Calls s')))"

definition ResetAudioDevice_device :: "CSoundGen \<Rightarrow> uint option" where
  "ResetAudioDevice_device s =
     (case ResetAudioDevice s of
        None \<Rightarrow> None
      | Some (ok, s') \<Rightarrow> Some (iDevice (Sound (theApp_Settings s'))))"

definition OpenChannel_args :: "call \<Rightarrow> (uint \<times> uint \<times> nat \<times> uint \<times> uint) option" where
  "OpenChannel_args c =
     (case c of
        Device_call (DSound_OpenChannel SampleRate SampleSize nChannels BufferLen iBlocks) \<Rightarrow>
          Some (SampleRate, SampleSize, nChannels, BufferLen, iBlocks)
      | _ \<Rightarrow> None)"

definition SetupDevice_arg :: "call \<Rightarrow> uint option" where
  "SetupDevice_arg c = (case c of Device_call (DSound_SetupDevice d) \<Rightarrow> Some d | _ \<Rightarrow> None)"

definition MessageBox_arg :: "call \<Rightarrow> message_id option" where
  "MessageBox_arg c = (case c of UI_call (AfxMessageBox m) \<Rightarrow> Some m | _ \<Rightarrow> None)"

text \<open>The level of a chip in the APU after a run of \<open>ResetAudioDevice\<close> that returned true.\<close>

definition ResetAudioDevice_level :: "chip_level_t \<Rightarrow> CSoundGen \<Rightarrow> real option" where
  "ResetAudioDevice_level chip s =
     (case ResetAudioDevice s of
        Some (True, s') \<Rightarrow> Some (ChipLevel (m_pAPU s') chip)
      | _ \<Rightarrow> None)"

fun persisted_level :: "chip_level_t \<Rightarrow> Settings_ChipLevels \<Rightarrow> uint" where
  "persisted_level CHIP_LEVEL_APU1 L = iLevelAPU1 L"
| "persisted_level CHIP_LEVEL_APU2 L = iLevelAPU2 L"
| "persisted_level CHIP_LEVEL_VRC6 L = iLevelVRC6 L"
| "persisted_level CHIP_LEVEL_VRC7 L = iLevelVRC7 L"
| "persisted_level CHIP_LEVEL_MMC5 L = iLevelMMC5 L"
| "persisted_level CHIP_LEVEL_FDS L = iLevelFDS L"
| "persisted_level CHIP_LEVEL_N163 L = iLevelN163 L"
| "persisted_level CHIP_LEVEL_S5B L = iLevelS5B L"

text \<open>The calls that a step makes, started in a state.\<close>

definition calls_made :: "(CSoundGen \<Rightarrow> CSoundGen) \<Rightarrow> CSoundGen \<Rightarrow> call list" where
  "calls_made f s = drop (length (Calls s)) (Calls (f s))"

definition BeginPlayer_calls :: "CPlayerCursor \<Rightarrow> CSoundGen \<Rightarrow> call list option" where
  "BeginPlayer_calls Pos s =
     (case BeginPlayer Pos s of
        None \<Rightarrow> None
      | Some s' \<Rightarrow> Some (drop (length (Calls s)) (Calls s')))"

text \<open>
  A state of the object after start-up: thread running, a loaded document with five
  channels, a view, two output devices that open, the audio device open, nothing
  playing, nothing muted, no recording armed.
\<close>

definition example_note :: stChanNote where
  "example_note = \<lparr>Note = 1, Octave = 3, Vol = 15\<rparr>"

definition example_document :: CFamiTrackerDoc where
  "example_document =
     \<lparr>FileLoaded = True,
      Channels = [CHANID 0, CHANID 1, CHANID 2, CHANID 3, CHANID 4],
      ActiveNote = (\<lambda>track frame chan row. example_note),
      ChannelIndex = (\<lambda>chan. case chan of CHANID n \<Rightarrow> n | NONE \<Rightarrow> 0),
      HighlightFirst = (\<lambda>track. 4),
      HighlightAtFirst = (\<lambda>track frame row. 4)\<rparr>"

definition example_settings :: CSettings where
  "example_settings =
     \<lparr>Sound = \<lparr>iSampleRate = 44100, iSampleSize = 16, iBufferLength = 200, iDevice = 0,
               iBassFilter = 30, iTrebleFilter = 12000, iTrebleDamping = 24, iMixVolume = 100\<rparr>,
      ChipLevels = \<lparr>iLevelAPU1 = 100, iLevelAPU2 = 0, iLevelVRC6 = 0, iLevelVRC7 = 0,
                    iLevelMMC5 = 0, iLevelFDS = 0, iLevelN163 = 0, iLevelS5B = 0\<rparr>,
      bAverageBPM = True, bRetrieveChanState = False, bMidiArpeggio = False\<rparr>"

definition example_state :: CSoundGen where
  "example_state =
     \<lparr>m_hThread = True,
      m_pDocument = Some example_document,
      m_pTrackerView = Some \<lparr>SelectedPos = (0, 0), SelectedChannelID = CHANID 0\<rparr>,
      m_pDSound = Some \<lparr>DeviceCount = 2, SetupDevice_ok = (\<lambda>d. True),
                        OpenChannel_ok = (\<lambda>r z c b n. True)\<rparr>,
      m_pAudioDriver = Some \<lparr>AudioDeviceOpen = True\<rparr>,
      m_pWaveRenderer = None,
      m_pTempoDisplay = None,
      m_pVisualizerWnd = False,
      m_pPreviewSample = None,
      m_hInterruptEvent = True,
      m_pSoundDriver = \<lparr>Playing = False, PlayerCursor = None, ShouldHalt = False,
                        QueuedNotes = [], RegisterChanges = []\<rparr>,
      m_pAPU = \<lparr>Regs = (\<lambda>a. 0), PowerOn = (\<lambda>a. 0), ChipLevel = (\<lambda>c. 0),
                SetupSound_ok = (\<lambda>r. True), SNDCHIP_MMC5 = 8\<rparr>,
      m_pInstRecorder = \<lparr>RecordChannel = NONE\<rparr>,
      m_pTempoCounter = 150,
      m_bHaltRequest = False,
      m_bPlayingSingleRow = False,
      m_iLastTrack = 0,
      m_iLastHighlight = 4,
      m_iMachineType = NTSC,
      m_iUpdateCycles = 29829,
      m_iFrameCounter = 0,
      m_bWaveChanged = False,
      m_bInternalWaveChanged = False,
      muted = [False, False, False, False, False],
      theApp_Settings = example_settings,
      MessageQueue = [],
      Calls = []\<rparr>"

text \<open>The example state while a song plays, and with the audio device closed as well.\<close>

definition example_playing :: CSoundGen where
  "example_playing =
     example_state\<lparr>m_pSoundDriver :=
       (m_pSoundDriver example_state)\<lparr>Playing := True, PlayerCursor := Some (CPlayerCursor_new 0)\<rparr>\<rparr>"

definition example_renderer :: CWaveRenderer where
  "example_renderer =
     \<lparr>Started = False, Finished = False, ShouldStopRender = False, ShouldStartPlayer = False,
      RenderTrack = 0\<rparr>"

text \<open>
  The playing example state after a reload of the settings during which no output device
  set up: the audio device is closed and the error has been shown.
\<close>

definition closed_device_state :: CSoundGen where
  "closed_device_state =
     example_playing\<lparr>
       m_pDSound := Some \<lparr>DeviceCount = 0, SetupDevice_ok = (\<lambda>d. False),
                            OpenChannel_ok = (\<lambda>r z c b n. False)\<rparr>,
       m_pAudioDriver := Some \<lparr>AudioDeviceOpen = False\<rparr>,
       Calls := [Device_call Audio_CloseAudioDevice, Device_call (DSound_SetupDevice 0),
                 UI_call (AfxMessageBox IDS_DSOUND_ERROR)]\<rparr>"

text \<open>
  The player is stopped, no message is pending and no render session exists: a state
  that every further round of the player thread keeps.
\<close>

definition quiet :: "CSoundGen \<Rightarrow> bool" where
  "quiet s = (\<not> IsPlaying s \<and> MessageQueue s = [] \<and> m_pWaveRenderer s = None)"

text \<open>The calls that one run of \<open>PlaySingleRow\<close> makes.\<close>

definition PlaySingleRow_calls :: "nat \<Rightarrow> CSoundGen \<Rightarrow> call list option" where
  "PlaySingleRow_calls track s =
     (case PlaySingleRow track s of
        None \<Rightarrow> None
      | Some s' \<Rightarrow> Some (drop (length (Calls s)) (Calls s')))"

definition QueueNote_channel :: "call \<Rightarrow> chan_id_t option" where
  "QueueNote_channel c = (case c of Driver_call (Driver_QueueNote ch n p) \<Rightarrow> Some ch | _ \<Rightarrow> None)"

definition NoteRegisters_args :: "call \<Rightarrow> (chan_id_t \<times> stChanNote) option" where
  "NoteRegisters_args c = (case c of APU_call (APU_NoteRegisters ch n) \<Rightarrow> Some (ch, n) | _ \<Rightarrow> None)"

text \<open>
  The notes of a channel that reached the APU as register writes, in the order of the
  writes.
\<close>

definition NoteRegisters_on :: "chan_id_t \<Rightarrow> CSoundGen \<Rightarrow> stChanNote list" where
  "NoteRegisters_on c s =
     map snd (filter (\<lambda>e. fst e = c) (List.map_filter NoteRegisters_args (Calls s)))"

text \<open>
  Two states with the same mute flags, the same register changes waiting in the driver
  and the same register writes for notes in the call log.
\<close>

definition same_notes :: "CSoundGen \<Rightarrow> CSoundGen \<Rightarrow> bool" where
  "same_notes s s' \<longleftrightarrow>
     muted s' = muted s
     \<and> RegisterChanges (m_pSoundDriver s') = RegisterChanges (m_pSoundDriver s)
     \<and> List.map_filter NoteRegisters_args (Calls s') =
         List.map_filter NoteRegisters_args (Calls s)"

text \<open>
  A step from \<open>s\<close> to \<open>s'\<close> keeps channel \<open>c\<close> silent: if the channel is muted in \<open>s\<close> and no
  register change of it waits in the driver, the same holds in \<open>s'\<close>, and the notes of
  the channel that reached the APU are those that had reached it in \<open>s\<close>.
\<close>

definition keeps_silent :: "chan_id_t \<Rightarrow> CSoundGen \<Rightarrow> CSoundGen \<Rightarrow> bool" where
  "keeps_silent c s s' \<longleftrightarrow>
     (IsChannelMuted c s = Some True \<and> c \<notin> fst ` set (RegisterChanges (m_pSoundDriver s))
      \<longrightarrow> IsChannelMuted c s' = Some True
          \<and> c \<notin> fst ` set (RegisterChanges (m_pSoundDriver s'))
          \<and> NoteRegisters_on c s' = NoteRegisters_on c s)"

text \<open>
  What goes on around a muted channel: the main thread queues notes, plays single rows,
  posts messages to the player thread and mutes or unmutes channels, and the player
  thread makes rounds of its loop, in any order. A run has no result when one of its
  steps has none.
\<close>

datatype activity =
    Thread_round
  | Queue_note chan_id_t stChanNote note_prio_t
  | Play_single_row nat
  | Post_message thread_msg
  | Set_mute chan_id_t bool

fun perform :: "activity \<Rightarrow> CSoundGen \<Rightarrow> CSoundGen option" where
  "perform Thread_round s = PlayerThread_round s"
| "perform (Queue_note c n p) s = QueueNote c n p s"
| "perform (Play_single_row track) s = PlaySingleRow track s"
| "perform (Post_message m) s = Some (PostThreadMessage m s)"
| "perform (Set_mute c mute) s = SetChannelMute c mute s"

fun perform_all :: "activity list \<Rightarrow> CSoundGen \<Rightarrow> CSoundGen option" where
  "perform_all [] s = Some s"
| "perform_all (a # rest) s =
     (case perform a s of None \<Rightarrow> None | Some s' \<Rightarrow> perform_all rest s')"

text \<open>The example state with channel 2 muted, as \<open>SetChannelMute(2, true)\<close> leaves it.\<close>

definition example_muted :: CSoundGen where
  "example_muted = example_state\<lparr>muted := [False, False, True, False, False]\<rparr>"

text \<open>
  The state inside \<open>BeginPlayer\<close> when \<open>ResetAPU()\<close> has returned, in a run that passes the
  guard, and the rest of \<open>BeginPlayer\<close> from there: \<open>MakeSilent()\<close>, the channel state and
  the instrument recorder.
\<close>

definition BeginPlayer_after_ResetAPU :: "CPlayerCursor \<Rightarrow> CSoundGen \<Rightarrow> CSoundGen" where
  "BeginPlayer_after_ResetAPU Pos s =
     (let s1 = CSoundDriver_StartPlayer Pos s;
          s2 = s1\<lparr>m_bHaltRequest := False, m_bPlayingSingleRow := False,
                  m_iLastTrack := CurrentSong Pos\<rparr>;
          s3 = (if bAverageBPM (theApp_Settings s2)
                then s2\<lparr>m_pTempoDisplay :=
                          Some \<lparr>CacheSize = DEFAULT_AVERAGE_BPM_SIZE, History = []\<rparr>\<rparr>
                else s2)
      in ResetAPU (ResetTempo s3))"

definition BeginPlayer_from_MakeSilent :: "CSoundGen \<Rightarrow> CSoundGen option" where
  "BeginPlayer_from_MakeSilent t =
     (let s4 = MakeSilent t
      in (case (if bRetrieveChanState (theApp_Settings s4)
                then ApplyGlobalState s4 else Some s4) of
            None \<Rightarrow> None
          | Some s5 \<Rightarrow>
              Some (if RecordChannel (m_pInstRecorder s5) \<noteq> NONE
                    then note_call (Recorder_call Recorder_StartRecording) s5
                    else s5)))"

text \<open>
  A run: a song plays; the settings are reloaded while no output device sets up, which
  leaves the audio device closed; then the main thread asks to render to a file that
  opens, sleeping while the player thread makes three rounds per \<open>Sleep(100)\<close>; then the
  player thread makes one more round. The result is what \<open>RenderToFile\<close> returned, and
  whether the player is playing and a render is active at the end.
\<close>

definition render_while_playing_run :: "(bool \<times> bool \<times> bool) option" where
  "render_while_playing_run =
     (case OnThreadMessage WM_USER_LOAD_SETTINGS
             (example_playing\<lparr>m_pDSound :=
                Some \<lparr>DeviceCount = 0, SetupDevice_ok = (\<lambda>d. False),
                      OpenChannel_ok = (\<lambda>r z c b n. False)\<rparr>\<rparr>) of
        None \<Rightarrow> None
      | Some s1 \<Rightarrow>
          (case RenderToFile (Sleep_while_thread_runs (\<lambda>i. 3)) (\<lambda>f r z c. True) ''out.wav''
                  (Some example_renderer) s1 of
             (ok, s2) \<Rightarrow>
               (case PlayerThread_round s2 of
                  None \<Rightarrow> None
                | Some s3 \<Rightarrow> Some (ok, IsPlaying s3, IsRendering s3))))"

section \<open>Basic facts\<close>

lemma run_Nil [simp]: "run [] s = s"
  by (simp add: run_def)

lemma run_Cons [simp]: "run (f # fs) s = run fs (f s)"
  by (simp add: run_def)

lemmas prim_defs = note_call_def CAPU_Reset_def CAPU_Write_def CAPU_ClearSample_def
  CAPU_SetChipLevel_def CAudioDriver_CloseAudioDevice_def

text \<open>The effect of the silencing and resetting steps, as one update of the state.\<close>

lemma ResetAPU_eq:
  "ResetAPU s = s\<lparr>m_pAPU := (m_pAPU s)\<lparr>Regs :=
       (PowerOn (m_pAPU s))(0x4015 := 0x0F, 0x4017 := 0x00, 0x4023 := 0x02, 0x5015 := 0x03)\<rparr>,
     Calls := Calls s @
       [APU_call APU_Reset, APU_call (APU_Write 0x4015 0x0F), APU_call (APU_Write 0x4017 0x00),
        APU_call (APU_Write 0x4023 0x02), APU_call (APU_Write 0x5015 0x03),
        APU_call APU_ClearSample]\<rparr>"
  by (simp add: ResetAPU_def prim_defs)

lemma MakeSilent_eq:
  "MakeSilent s = s\<lparr>m_pAPU := (m_pAPU s)\<lparr>Regs := PowerOn (m_pAPU s)\<rparr>,
     Calls := Calls s @
       (if m_pTrackerView s \<noteq> None then [UI_call View_MakeSilent] else []) @
       [UI_call Arpeggiator_Clear, APU_call APU_Reset, APU_call APU_ClearSample,
        Driver_call Driver_ResetTracks]\<rparr>"
  by (simp add: MakeSilent_def prim_defs)

lemma ResetTempo_eq:
  "ResetTempo s =
     (case m_pDocument s of
        None \<Rightarrow> s
      | Some doc \<Rightarrow>
          s\<lparr>m_iLastHighlight := HighlightFirst doc (m_iLastTrack s),
            Calls := Calls s @ [Driver_call (Tempo_LoadTempo (m_iLastTrack s))]\<rparr>)"
  by (simp add: ResetTempo_def note_call_def split: option.splits)

lemma HaltPlayer_eq:
  "HaltPlayer s = s\<lparr>m_pAPU := (m_pAPU s)\<lparr>Regs := PowerOn (m_pAPU s)\<rparr>,
     m_pSoundDriver := (m_pSoundDriver s)\<lparr>Playing := False, PlayerCursor := None\<rparr>,
     m_bHaltRequest := False, m_bPlayingSingleRow := False, m_pTempoDisplay := None,
     Calls := Calls s @
       (if m_pTrackerView s \<noteq> None then [UI_call View_MakeSilent] else []) @
       [UI_call Arpeggiator_Clear, APU_call APU_Reset, APU_call APU_ClearSample,
        Driver_call Driver_ResetTracks, APU_call APU_ClearSample] @
       (if m_pTrackerView s \<noteq> None then [Recorder_call Recorder_StopRecording] else []) @
       [Driver_call Driver_StopPlayer]\<rparr>"
  by (simp add: HaltPlayer_def MakeSilent_eq CSoundDriver_StopPlayer_def prim_defs)

text \<open>
  When the document is loaded and the audio device is open, \<open>BeginPlayer\<close> returns with
  the player playing; its first calls are those of the driver's start, of the tempo reset
  and of \<open>ResetAPU\<close>, and none of its calls is a tick of the driver.
\<close>

lemma BeginPlayer_started:
  assumes "m_pDocument s = Some doc" and "FileLoaded doc"
      and "m_pAudioDriver s = Some a" and "AudioDeviceOpen a"
  shows "\<exists>s' rest. BeginPlayer Pos s = Some s' \<and> IsPlaying s'
           \<and> Calls s' = Calls s @ Driver_call (Driver_StartPlayer Pos)
                 # Driver_call (Tempo_LoadTempo (CurrentSong Pos))
                 # [APU_call APU_Reset, APU_call (APU_Write 0x4015 0x0F),
                    APU_call (APU_Write 0x4017 0x00), APU_call (APU_Write 0x4023 0x02),
                    APU_call (APU_Write 0x5015 0x03), APU_call APU_ClearSample] @ rest
           \<and> Driver_call Driver_Tick \<notin> set rest
           \<and> m_pTempoDisplay s' =
               (if bAverageBPM (theApp_Settings s)
                then Some \<lparr>CacheSize = DEFAULT_AVERAGE_BPM_SIZE, History = []\<rparr>
                else m_pTempoDisplay s)"
  using assms
  by (simp add: BeginPlayer_def Let_def IsPlaying_def CSoundDriver_StartPlayer_def
      ResetTempo_eq ResetAPU_eq MakeSilent_eq ApplyGlobalState_def GetPlayerPos_def
      GetPlayerTrack_def note_call_def split: option.splits)

text \<open>Definitions unfolded when a run is evaluated on the example states.\<close>

lemmas example_defs = example_playing_def example_state_def example_document_def
  example_settings_def example_renderer_def example_note_def CPlayerCursor_new_def

lemmas thread_defs = PlayerThread_round_def OnStopPlayer_def HaltPlayer_eq IdleLoop_def Let_def
  CSoundDriver_Tick_def UpdateAPU_def CSoundDriver_UpdateAPU_def IsPlaying_def note_call_def
  Sleep_while_thread_runs_def StopPlayer_def PostThreadMessage_def

subsection \<open>The polling loop\<close>

lemma WaitForStop_loop_stop:
  "\<not> (i < 40 \<and> IsPlaying s) \<Longrightarrow> WaitForStop_loop Sleep i s = (i, s)"
  by (subst WaitForStop_loop.simps) auto

lemma WaitForStop_loop_step:
  "i < 40 \<Longrightarrow> IsPlaying s \<Longrightarrow>
     WaitForStop_loop Sleep i s = WaitForStop_loop Sleep (i + 1) (Sleep i s)"
  by (subst WaitForStop_loop.simps) simp

lemma WaitForStop_loop_bound:
  "i \<le> 40 \<Longrightarrow> fst (WaitForStop_loop Sleep i s) \<le> 40
     \<and> i \<le> fst (WaitForStop_loop Sleep i s)
     \<and> (fst (WaitForStop_loop Sleep i s) < 40 \<longrightarrow> \<not> IsPlaying (snd (WaitForStop_loop Sleep i s)))"
proof (induction Sleep i s rule: WaitForStop_loop.induct)
  case (1 Sleep i s)
  show ?case
  proof (cases "i < 40 \<and> IsPlaying s")
    case True
    then have "i + 1 \<le> 40" by simp
    with "1.IH" True have
      "fst (WaitForStop_loop Sleep (i + 1) (Sleep i s)) \<le> 40
       \<and> i + 1 \<le> fst (WaitForStop_loop Sleep (i + 1) (Sleep i s))
       \<and> (fst (WaitForStop_loop Sleep (i + 1) (Sleep i s)) < 40 \<longrightarrow>
            \<not> IsPlaying (snd (WaitForStop_loop Sleep (i + 1) (Sleep i s))))"
      by blast
    moreover have "WaitForStop_loop Sleep i s = WaitForStop_loop Sleep (i + 1) (Sleep i s)"
      using True by (simp add: WaitForStop_loop_step)
    ultimately show ?thesis by simp
  next
    case False
    then have "WaitForStop_loop Sleep i s = (i, s)"
      by (rule WaitForStop_loop_stop)
    with False "1.prems" show ?thesis by auto
  qed
qed

lemma WaitForStop_result:
  "fst (snd (WaitForStop Sleep s)) \<le> 40
   \<and> fst (WaitForStop Sleep s) = (\<not> IsPlaying (snd (snd (WaitForStop Sleep s))))
   \<and> (fst (snd (WaitForStop Sleep s)) < 40 \<longrightarrow> fst (WaitForStop Sleep s))"
  using WaitForStop_loop_bound [of 0 Sleep s]
  by (cases "WaitForStop_loop Sleep 0 s") (simp add: WaitForStop_def)


subsection \<open>What the steps of the player thread leave unchanged\<close>

lemma ResetAudioDevice_frame:
  "ResetAudioDevice s = Some (ok, s') \<Longrightarrow>
     MessageQueue s' = MessageQueue s \<and> m_pWaveRenderer s' = m_pWaveRenderer s
     \<and> m_pSoundDriver s' = m_pSoundDriver s"
  by (auto simp add: ResetAudioDevice_def Let_def ResetAudioDevice_levels_def prim_defs
      split: option.splits if_splits)

lemma ApplyGlobalState_frame:
  "ApplyGlobalState s = Some s' \<Longrightarrow>
     MessageQueue s' = MessageQueue s \<and> m_pWaveRenderer s' = m_pWaveRenderer s
     \<and> m_pSoundDriver s' = m_pSoundDriver s"
  by (auto simp add: ApplyGlobalState_def note_call_def split: option.splits if_splits prod.splits)

lemma BeginPlayer_frame:
  "BeginPlayer Pos s = Some s' \<Longrightarrow>
     MessageQueue s' = MessageQueue s \<and> m_pWaveRenderer s' = m_pWaveRenderer s"
  by (auto simp add: BeginPlayer_def Let_def CSoundDriver_StartPlayer_def
      ResetTempo_eq ResetAPU_eq MakeSilent_eq note_call_def
      dest!: ApplyGlobalState_frame split: option.splits if_splits)

lemma HaltPlayer_frame:
  "MessageQueue (HaltPlayer s) = MessageQueue s"
  "m_pWaveRenderer (HaltPlayer s) = m_pWaveRenderer s"
  "\<not> IsPlaying (HaltPlayer s)"
  "\<not> Playing (m_pSoundDriver (HaltPlayer s))"
  by (simp_all add: HaltPlayer_eq IsPlaying_def)

lemma ResetBuffer_frame:
  "ResetBuffer s = Some s' \<Longrightarrow>
     MessageQueue s' = MessageQueue s \<and> m_pWaveRenderer s' = m_pWaveRenderer s
     \<and> m_pSoundDriver s' = m_pSoundDriver s"
  by (auto simp add: ResetBuffer_def prim_defs split: option.splits)

lemma StartRendering_no_renderer:
  "m_pWaveRenderer s = None \<Longrightarrow> StartRendering s = None"
  by (auto simp add: StartRendering_def dest!: ResetBuffer_frame split: option.splits)

lemma StopRendering_no_renderer:
  "m_pWaveRenderer s = None \<Longrightarrow> StopRendering s = Some s"
  by (simp add: StopRendering_def is_rendering_impl_def)

lemma PlayPreviewSample_frame:
  "PlayPreviewSample w l s = Some s' \<Longrightarrow>
     MessageQueue s' = MessageQueue s \<and> m_pWaveRenderer s' = m_pWaveRenderer s"
  by (auto simp add: PlayPreviewSample_def Let_def prim_defs split: option.splits)

lemma CloseAudio_frame:
  "MessageQueue (CloseAudio s) = MessageQueue s"
  "m_pWaveRenderer (CloseAudio s) = m_pWaveRenderer s"
  by (simp_all add: CloseAudio_def Let_def prim_defs)

lemma OnThreadMessage_frame:
  assumes "OnThreadMessage m s = Some s'" and "m_pWaveRenderer s = None"
  shows "MessageQueue s' = MessageQueue s \<and> m_pWaveRenderer s' = None"
proof (cases m)
  case WM_USER_SILENT_ALL
  with assms show ?thesis by (auto simp add: OnSilentAll_def MakeSilent_eq)
next
  case WM_USER_LOAD_SETTINGS
  with assms show ?thesis
    by (auto simp add: OnLoadSettings_def note_call_def dest!: ResetAudioDevice_frame
        split: option.splits if_splits)
next
  case (WM_USER_PLAY Pos)
  with assms show ?thesis by (auto simp add: OnStartPlayer_def dest!: BeginPlayer_frame)
next
  case WM_USER_STOP
  with assms show ?thesis by (auto simp add: OnStopPlayer_def HaltPlayer_frame)
next
  case (WM_USER_RESET pCur)
  with assms show ?thesis
    by (auto simp add: OnResetPlayer_def Let_def dest!: BeginPlayer_frame split: if_splits)
next
  case WM_USER_START_RENDER
  with assms show ?thesis by (simp add: OnStartRender_def StartRendering_no_renderer)
next
  case WM_USER_STOP_RENDER
  with assms show ?thesis by (simp add: OnStopRender_def StopRendering_no_renderer)
next
  case (WM_USER_PREVIEW_SAMPLE w l)
  with assms show ?thesis by (auto simp add: OnPreviewSample_def dest!: PlayPreviewSample_frame)
next
  case (WM_USER_WRITE_APU w l)
  with assms show ?thesis by (auto simp add: OnWriteAPU_def prim_defs)
next
  case (WM_USER_CLOSE_SOUND e)
  with assms show ?thesis
    by (auto simp add: OnCloseSound_def Let_def CloseAudio_frame note_call_def split: if_splits)
next
  case (WM_USER_SET_CHIP w)
  with assms show ?thesis by (auto simp add: OnSetChip_def prim_defs)
next
  case WM_USER_REMOVE_DOCUMENT
  with assms show ?thesis by (auto simp add: OnRemoveDocument_def prim_defs)
qed


lemma UpdateAPU_frame:
  "MessageQueue (UpdateAPU s) = MessageQueue s"
  "m_pWaveRenderer (UpdateAPU s) = m_pWaveRenderer s"
  "Playing (m_pSoundDriver (UpdateAPU s)) = Playing (m_pSoundDriver s)"
  "m_bHaltRequest (UpdateAPU s) = m_bHaltRequest s"
  by (simp_all add: UpdateAPU_def CSoundDriver_UpdateAPU_def Let_def)

lemma Tick_frame:
  "MessageQueue (CSoundDriver_Tick s) = MessageQueue s"
  "m_pWaveRenderer (CSoundDriver_Tick s) = m_pWaveRenderer s"
  "Playing (m_pSoundDriver (CSoundDriver_Tick s)) = Playing (m_pSoundDriver s)"
  by (simp_all add: CSoundDriver_Tick_def Let_def note_call_def)

lemma IdleLoop_frame:
  assumes "IdleLoop s = Some s'" and "m_pWaveRenderer s = None"
  shows "MessageQueue s' = MessageQueue s \<and> m_pWaveRenderer s' = None
         \<and> (\<not> IsPlaying s \<longrightarrow> \<not> IsPlaying s')"
  using assms
  by (auto simp add: IdleLoop_def Let_def UpdateAPU_frame Tick_frame HaltPlayer_frame
      note_call_def IsPlaying_def split: option.splits if_splits)

lemma DispatchMessages_append:
  "DispatchMessages (xs @ ys) s =
     (case DispatchMessages xs s of None \<Rightarrow> None | Some s' \<Rightarrow> DispatchMessages ys s')"
  by (induction xs arbitrary: s) (auto split: option.splits)

lemma DispatchMessages_frame:
  "DispatchMessages ms s = Some s' \<Longrightarrow> m_pWaveRenderer s = None \<Longrightarrow>
     MessageQueue s' = MessageQueue s \<and> m_pWaveRenderer s' = None"
proof (induction ms arbitrary: s)
  case Nil
  then show ?case by simp
next
  case (Cons m ms)
  from Cons.prems(1) obtain s1 where
    a: "OnThreadMessage m s = Some s1" and b: "DispatchMessages ms s1 = Some s'"
    by (auto split: option.splits)
  from OnThreadMessage_frame [OF a Cons.prems(2)] have
    "MessageQueue s1 = MessageQueue s" and r: "m_pWaveRenderer s1 = None" by simp_all
  with Cons.IH [OF b r] show ?case by simp
qed

lemma round_quiet:
  assumes "PlayerThread_round s = Some s'" and "quiet s"
  shows "quiet s'"
proof -
  from assms have q: "MessageQueue s = []" and r: "m_pWaveRenderer s = None"
    and p: "\<not> IsPlaying s" by (simp_all add: quiet_def)
  from assms(1) q have "IdleLoop (s\<lparr>MessageQueue := []\<rparr>) = Some s'"
    by (simp add: PlayerThread_round_def)
  from IdleLoop_frame [OF this] r p show ?thesis
    by (simp add: quiet_def IsPlaying_def)
qed

lemma PlayerThread_quiet:
  "PlayerThread n s = Some s' \<Longrightarrow> quiet s \<Longrightarrow> quiet s'"
proof (induction n arbitrary: s)
  case 0
  then show ?case by simp
next
  case (Suc n)
  from Suc.prems(1) obtain s1 where
    a: "PlayerThread_round s = Some s1" and b: "PlayerThread n s1 = Some s'"
    by (auto split: option.splits)
  from round_quiet [OF a Suc.prems(2)] Suc.IH [OF b] show ?case by simp
qed

lemma round_after_stop:
  assumes "PlayerThread_round s = Some s'" and "m_pWaveRenderer s = None"
      and "MessageQueue s = q @ [WM_USER_STOP]"
  shows "quiet s'"
proof -
  from assms(1,3) obtain s1 s2 where
    a: "DispatchMessages q (s\<lparr>MessageQueue := []\<rparr>) = Some s1"
    and b: "OnThreadMessage WM_USER_STOP s1 = Some s2"
    and c: "IdleLoop s2 = Some s'"
    by (auto simp add: PlayerThread_round_def DispatchMessages_append split: option.splits)
  from DispatchMessages_frame [OF a] assms(2) have
    q1: "MessageQueue s1 = []" and r1: "m_pWaveRenderer s1 = None" by simp_all
  from b have s2: "s2 = HaltPlayer s1" by (simp add: OnStopPlayer_def)
  have q2: "MessageQueue s2 = []" and r2: "m_pWaveRenderer s2 = None" and p2: "\<not> IsPlaying s2"
    using q1 r1 by (simp_all add: s2 HaltPlayer_frame)
  from IdleLoop_frame [OF c r2] q2 p2 show ?thesis by (simp add: quiet_def)
qed

lemma PlayerThread_after_stop:
  assumes "PlayerThread n s = Some s'" and "0 < n" and "m_pWaveRenderer s = None"
      and "MessageQueue s = q @ [WM_USER_STOP]"
  shows "\<not> IsPlaying s'"
proof -
  from assms(2) obtain k where n: "n = Suc k" by (cases n) auto
  from assms(1) obtain s1 where
    a: "PlayerThread_round s = Some s1" and b: "PlayerThread k s1 = Some s'"
    unfolding n by (auto split: option.splits)
  from round_after_stop [OF a assms(3,4)] have "quiet s1" .
  from PlayerThread_quiet [OF b this] show ?thesis by (simp add: quiet_def)
qed


section \<open>Properties of the audio device set-up\<close>

lemma iBlocks_value:
  "sint (ResetAudioDevice_iBlocks B) = (if 100 < unat B then 2 + int (unat B div 66) else 2)"
proof -
  have b: "unat B < 2 ^ 32"
    using unsigned_less [of B] by simp
  have d: "unat (B div 66) = unat B div 66"
    by (simp add: unat_div)
  have le: "unat B div 66 \<le> 65075262"
    using b by simp
  have u: "unat (2 + B div 66) = 2 + unat B div 66"
    using le d by (simp add: unat_word_ariths)
  have ui: "uint (2 + B div 66) = 2 + int (unat B div 66)"
    unfolding uint_nat u by simp
  have s: "sint (2 + B div 66) = 2 + int (unat B div 66)"
    unfolding sint_uint ui using le by (simp add: signed_take_bit_int_eq_self)
  have c: "(100 < B) = (100 < unat B)"
    by (simp add: word_less_nat_alt)
  show ?thesis
    unfolding ResetAudioDevice_iBlocks_def using s c by simp
qed

text \<open>
  Claim C2. Whenever \<open>ResetAudioDevice\<close> gets as far as opening the channel (the sound
  object exists and the device it selects sets up), it calls \<open>OpenChannel\<close> exactly once,
  with the configured sample rate, sample size, one channel, the configured buffer length
  and a block count which, read as the \<open>int\<close> it is, equals \<open>2 + floor(BufferLen / 66)\<close>
  when the buffer length exceeds 100 and \<open>2\<close> otherwise. Nothing is assumed about the
  sample rate or the buffer length.
\<close>

theorem OpenChannel_block_count:
  assumes "m_pDSound s = Some ds"
      and "SetupDevice_ok ds (if DeviceCount ds \<le> iDevice (Sound (theApp_Settings s)) then 0
                              else iDevice (Sound (theApp_Settings s)))"
  shows "map_option (List.map_filter OpenChannel_args) (ResetAudioDevice_calls s) =
           Some [(iSampleRate (Sound (theApp_Settings s)), iSampleSize (Sound (theApp_Settings s)), 1,
                  iBufferLength (Sound (theApp_Settings s)),
                  ResetAudioDevice_iBlocks (iBufferLength (Sound (theApp_Settings s))))]
         \<and> sint (ResetAudioDevice_iBlocks (iBufferLength (Sound (theApp_Settings s)))) =
             (if 100 < unat (iBufferLength (Sound (theApp_Settings s)))
              then 2 + int (unat (iBufferLength (Sound (theApp_Settings s))) div 66) else 2)"
  using assms
  by (simp add: iBlocks_value ResetAudioDevice_calls_def ResetAudioDevice_def Let_def prim_defs
      ResetAudioDevice_levels_def OpenChannel_args_def)

theorem OpenChannel_block_count_witness:
  "map_option (List.map_filter OpenChannel_args) (ResetAudioDevice_calls example_state) =
     Some [(44100, 16, 1, 200, 5)] \<and> sint (5 :: uint) = 2 + int (200 div 66)"
  using OpenChannel_block_count [of example_state "the (m_pDSound example_state)"]
  by (simp add: example_state_def example_settings_def ResetAudioDevice_iBlocks_def)

text \<open>
  Claim C8. When the persisted device index is not below the number of enumerated
  devices, \<open>ResetAudioDevice\<close> runs exactly as it would with a persisted index of 0: the
  only device it sets up is device 0, the persisted index is 0 afterwards, and the only
  message boxes are those for device 0 itself failing to set up or to open a channel;
  the invalid index alone raises none.
\<close>

theorem invalid_device_index_resets_to_first:
  assumes "m_pDSound s = Some ds"
      and "DeviceCount ds \<le> iDevice (Sound (theApp_Settings s))"
  shows "ResetAudioDevice s =
           ResetAudioDevice
             (s\<lparr>theApp_Settings :=
                  (theApp_Settings s)\<lparr>Sound := (Sound (theApp_Settings s))\<lparr>iDevice := 0\<rparr>\<rparr>\<rparr>)
         \<and> map_option (List.map_filter SetupDevice_arg) (ResetAudioDevice_calls s) = Some [0]
         \<and> ResetAudioDevice_device s = Some 0
         \<and> map_option (List.map_filter MessageBox_arg) (ResetAudioDevice_calls s) =
             Some (if \<not> SetupDevice_ok ds 0 then [IDS_DSOUND_ERROR]
                   else if \<not> OpenChannel_ok ds (iSampleRate (Sound (theApp_Settings s)))
                               (iSampleSize (Sound (theApp_Settings s))) 1
                               (iBufferLength (Sound (theApp_Settings s)))
                               (ResetAudioDevice_iBlocks (iBufferLength (Sound (theApp_Settings s))))
                   then [IDS_DSOUND_BUFFER_ERROR] else [])"
proof -
  have same: "ResetAudioDevice s =
           ResetAudioDevice
             (s\<lparr>theApp_Settings :=
                  (theApp_Settings s)\<lparr>Sound := (Sound (theApp_Settings s))\<lparr>iDevice := 0\<rparr>\<rparr>\<rparr>)"
    using assms
    by (simp add: ResetAudioDevice_def Let_def prim_defs ResetAudioDevice_levels_def)
  have rest: "map_option (List.map_filter SetupDevice_arg) (ResetAudioDevice_calls s) = Some [0]
         \<and> ResetAudioDevice_device s = Some 0
         \<and> map_option (List.map_filter MessageBox_arg) (ResetAudioDevice_calls s) =
             Some (if \<not> SetupDevice_ok ds 0 then [IDS_DSOUND_ERROR]
                   else if \<not> OpenChannel_ok ds (iSampleRate (Sound (theApp_Settings s)))
                               (iSampleSize (Sound (theApp_Settings s))) 1
                               (iBufferLength (Sound (theApp_Settings s)))
                               (ResetAudioDevice_iBlocks (iBufferLength (Sound (theApp_Settings s))))
                   then [IDS_DSOUND_BUFFER_ERROR] else [])"
    using assms
    by (simp add: ResetAudioDevice_calls_def ResetAudioDevice_def Let_def prim_defs
        ResetAudioDevice_device_def ResetAudioDevice_levels_def SetupDevice_arg_def
        MessageBox_arg_def)
  from same rest show ?thesis by blast
qed

theorem invalid_device_index_resets_to_first_witness:
  "(2 :: uint) \<le> 7
   \<and> ResetAudioDevice_device
       (example_state\<lparr>theApp_Settings :=
          example_settings\<lparr>Sound := (Sound example_settings)\<lparr>iDevice := 7\<rparr>\<rparr>\<rparr>) = Some 0
   \<and> map_option (List.map_filter SetupDevice_arg)
       (ResetAudioDevice_calls
         (example_state\<lparr>theApp_Settings :=
            example_settings\<lparr>Sound := (Sound example_settings)\<lparr>iDevice := 7\<rparr>\<rparr>\<rparr>)) = Some [0]
   \<and> map_option (List.map_filter MessageBox_arg)
       (ResetAudioDevice_calls
         (example_state\<lparr>theApp_Settings :=
            example_settings\<lparr>Sound := (Sound example_settings)\<lparr>iDevice := 7\<rparr>\<rparr>\<rparr>)) = Some []"
  using invalid_device_index_resets_to_first
          [of "example_state\<lparr>theApp_Settings :=
                 example_settings\<lparr>Sound := (Sound example_settings)\<lparr>iDevice := 7\<rparr>\<rparr>\<rparr>"
              "the (m_pDSound example_state)"]
  by (simp add: example_state_def example_settings_def)

lemma levels_set:
  "ChipLevel (m_pAPU (ResetAudioDevice_levels t)) chip =
     chip_level_arg (persisted_level chip (ChipLevels (theApp_Settings t)))"
  by (cases chip)
     (simp_all add: ResetAudioDevice_levels_def Let_def CAPU_SetChipLevel_def note_call_def)

lemma ResetAudioDevice_True:
  assumes "ResetAudioDevice s = Some (True, s')"
  shows "ChipLevel (m_pAPU s') chip =
           chip_level_arg (persisted_level chip (ChipLevels (theApp_Settings s)))"
  using assms
  by (auto simp add: ResetAudioDevice_def Let_def levels_set note_call_def
      CAudioDriver_CloseAudioDevice_def split: option.splits if_splits)

subsection \<open>Single-precision rounding\<close>

lemma pow2_powr: "pow2 e = 2 powr (of_int e)"
proof (cases "0 \<le> e")
  case True
  then show ?thesis by (simp add: pow2_def powr_realpow [symmetric])
next
  case False
  then have "2 powr (of_int e) = 1 / (2::real) powr (of_int (- e))"
    by (simp add: powr_minus_divide)
  also have "\<dots> = 1 / 2 ^ nat (- e)"
    using False by (simp add: powr_realpow [symmetric])
  finally show ?thesis using False by (simp add: pow2_def)
qed

lemma pow2_pos: "0 < pow2 e"
  by (simp add: pow2_powr)

lemma pow2_mono: "a \<le> b \<Longrightarrow> pow2 a \<le> pow2 b"
  by (simp add: pow2_powr)

lemma pow2_less_iff: "pow2 a < pow2 b \<longleftrightarrow> a < b"
  by (simp add: pow2_powr)

lemma pow2_add: "pow2 (a + b) = pow2 a * pow2 b"
  by (simp add: pow2_powr powr_add)

lemma pow2_nat: "0 \<le> e \<Longrightarrow> pow2 e = of_int (2 ^ nat e)"
  by (simp add: pow2_def)

lemma float_exponent_from_eq:
  "pow2 e \<le> x \<Longrightarrow> x < pow2 (e + 1) \<Longrightarrow> e0 \<le> e \<Longrightarrow> e - e0 \<le> int k
   \<Longrightarrow> float_exponent_from k e0 x = e"
proof (induction k arbitrary: e0)
  case 0
  then show ?case by simp
next
  case (Suc k)
  show ?case
  proof (cases "pow2 (e0 + 1) \<le> x")
    case True
    then have "pow2 (e0 + 1) < pow2 (e + 1)" using Suc.prems(2) by simp
    then have "e0 + 1 \<le> e" by (simp add: pow2_less_iff)
    then have "float_exponent_from k (e0 + 1) x = e"
      using Suc.prems by (intro Suc.IH) auto
    then show ?thesis using True by simp
  next
    case False
    then have "pow2 e < pow2 (e0 + 1)" using Suc.prems(1) by simp
    then have "e = e0" using Suc.prems(3) by (simp add: pow2_less_iff)
    then show ?thesis using False by simp
  qed
qed

lemma float_exponent_eq:
  "pow2 e \<le> \<bar>x\<bar> \<Longrightarrow> \<bar>x\<bar> < pow2 (e + 1) \<Longrightarrow> - 126 \<le> e \<Longrightarrow> e \<le> 127
   \<Longrightarrow> float_exponent x = e"
  unfolding float_exponent_def by (rule float_exponent_from_eq) auto

lemma float_exponent_from_lower:
  "float_exponent_from k e0 x = e0 \<or> pow2 (float_exponent_from k e0 x) \<le> x"
proof (induction k arbitrary: e0)
  case 0
  then show ?case by simp
next
  case (Suc k)
  show ?case
  proof (cases "pow2 (e0 + 1) \<le> x")
    case True
    then show ?thesis using Suc.IH [of "e0 + 1"] by auto
  next
    case False
    then show ?thesis by simp
  qed
qed

lemma float_exponent_from_ge: "e0 \<le> float_exponent_from k e0 x"
proof (induction k arbitrary: e0)
  case 0
  then show ?case by simp
next
  case (Suc k)
  show ?case using Suc.IH [of "e0 + 1"] by simp
qed

lemma float_exponent_ge: "- 126 \<le> float_exponent x"
  unfolding float_exponent_def by (rule float_exponent_from_ge)

lemma float_exponent_lower:
  assumes "pow2 (- 126) \<le> \<bar>x\<bar>"
  shows "pow2 (float_exponent x) \<le> \<bar>x\<bar>"
  using float_exponent_from_lower [of 253 "- 126" "\<bar>x\<bar>"] assms
  unfolding float_exponent_def by auto

lemma float_exponent_le:
  assumes "\<bar>x\<bar> < pow2 (E + 1)" and "- 126 \<le> E"
  shows "float_exponent x \<le> E"
proof -
  have "float_exponent x = - 126 \<or> pow2 (float_exponent x) \<le> \<bar>x\<bar>"
    using float_exponent_from_lower [of 253 "- 126" "\<bar>x\<bar>"]
    unfolding float_exponent_def by simp
  then show ?thesis
  proof
    assume "float_exponent x = - 126"
    then show ?thesis using assms(2) by simp
  next
    assume "pow2 (float_exponent x) \<le> \<bar>x\<bar>"
    then have "pow2 (float_exponent x) < pow2 (E + 1)" using assms(1) by simp
    then show ?thesis by (simp add: pow2_less_iff)
  qed
qed

lemma round_half_even_of_int: "round_half_even (of_int n) = n"
  by (simp add: round_half_even_def)

lemma round_half_even_error: "\<bar>of_int (round_half_even y) - y\<bar> \<le> 1 / 2"
proof -
  have "of_int \<lfloor>y\<rfloor> \<le> y" and "y < of_int \<lfloor>y\<rfloor> + 1" by linarith+
  then show ?thesis
    by (auto simp add: round_half_even_def Let_def)
qed

lemma round_half_even_le:
  assumes "y \<le> of_int N"
  shows "round_half_even y \<le> N"
proof -
  have f: "\<lfloor>y\<rfloor> \<le> N" using assms by (simp add: floor_le_iff)
  show ?thesis
  proof (cases "y - of_int \<lfloor>y\<rfloor> < 1 / 2")
    case True
    then show ?thesis using f by (simp add: round_half_even_def)
  next
    case False
    then have "of_int \<lfloor>y\<rfloor> < y" by simp
    then have "of_int \<lfloor>y\<rfloor> < (of_int N :: real)" using assms by simp
    then have "\<lfloor>y\<rfloor> < N" by simp
    then show ?thesis by (simp add: round_half_even_def Let_def)
  qed
qed

lemma round_half_even_nonneg: "0 \<le> y \<Longrightarrow> 0 \<le> round_half_even y"
  by (simp add: round_half_even_def Let_def)

lemma float_round_error: "\<bar>float_round x - x\<bar> \<le> pow2 (float_exponent x - 24)"
proof -
  define q where "q = pow2 (float_exponent x - 23)"
  have q: "0 < q" by (simp add: q_def pow2_pos)
  have "float_round x - x = q * (of_int (round_half_even (x / q)) - x / q)"
    using q by (simp add: float_round_def q_def [symmetric] algebra_simps)
  then have "\<bar>float_round x - x\<bar> = q * \<bar>of_int (round_half_even (x / q)) - x / q\<bar>"
    using q by (simp add: abs_mult)
  also have "\<dots> \<le> q * (1 / 2)"
    using q round_half_even_error [of "x / q"] by (intro mult_left_mono) auto
  also have "\<dots> = pow2 (float_exponent x - 24)"
    using pow2_add [of "float_exponent x - 23" "- 1"] by (simp add: q_def pow2_def)
  finally show ?thesis .
qed

lemma float_round_scaled:
  assumes "float_exponent x \<le> 23"
  shows "float_round x =
         of_int (round_half_even (x * of_int (2 ^ nat (23 - float_exponent x))))
         / of_int (2 ^ nat (23 - float_exponent x))"
proof -
  define e where "e = float_exponent x"
  have "pow2 (e - 23) * pow2 (23 - e) = 1"
    using pow2_add [of "e - 23" "23 - e"] by (simp add: pow2_def)
  moreover have "pow2 (23 - e) = of_int (2 ^ nat (23 - e))"
    using assms by (simp add: pow2_nat e_def)
  ultimately have "pow2 (e - 23) = 1 / of_int (2 ^ nat (23 - e))"
    by (simp add: field_simps)
  then show ?thesis
    by (simp add: float_round_def e_def [symmetric])
qed

lemma float_round_of_int:
  assumes "\<bar>n\<bar> < 2 ^ 24"
  shows "float_round (of_int n) = of_int n"
proof -
  have "\<bar>of_int n :: real\<bar> < pow2 (23 + 1)"
    using assms by (simp add: pow2_def flip: of_int_abs)
  then have e: "float_exponent (of_int n) \<le> 23"
    by (rule float_exponent_le) simp
  have "(of_int n :: real) * of_int (2 ^ nat (23 - float_exponent (of_int n)))
        = of_int (n * 2 ^ nat (23 - float_exponent (of_int n)))"
    by simp
  then show ?thesis
    unfolding float_round_scaled [OF e] by (simp only: round_half_even_of_int) simp
qed

lemma float_round_le:
  assumes "x \<le> of_int N" and "float_exponent x \<le> 23"
  shows "float_round x \<le> of_int N"
proof -
  define m :: int where "m = 2 ^ nat (23 - float_exponent x)"
  have m: "0 < m" by (simp add: m_def)
  have "x * of_int m \<le> of_int (N * m)"
    using assms(1) m by simp
  then have "round_half_even (x * of_int m) \<le> N * m"
    by (rule round_half_even_le)
  then have "(of_int (round_half_even (x * of_int m)) :: real) \<le> of_int (N * m)"
    by (simp only: of_int_le_iff)
  then show ?thesis
    unfolding float_round_scaled [OF assms(2)] m_def [symmetric]
    using m by (simp add: field_simps)
qed

lemma float_round_nonneg: "0 \<le> x \<Longrightarrow> 0 \<le> float_round x"
  by (simp add: float_round_def Let_def round_half_even_nonneg pow2_pos less_imp_le)

text \<open>The quotient of a setting between 0 and 100 by ten, in single precision.\<close>

lemma float_tenth_range:
  assumes "0 \<le> k" and "k \<le> 100"
  shows "0 \<le> float_round (of_int k / 10) \<and> float_round (of_int k / 10) \<le> 10"
proof -
  have "\<bar>of_int k / 10 :: real\<bar> < pow2 (3 + 1)"
    using assms by (simp add: pow2_def)
  then have "float_exponent (of_int k / 10) \<le> 3"
    by (rule float_exponent_le) simp
  moreover have "(of_int k / 10 :: real) \<le> of_int 10" using assms by simp
  ultimately have "float_round (of_int k / 10) \<le> of_int 10"
    by (intro float_round_le) auto
  then show ?thesis using assms by (simp add: float_round_nonneg)
qed

lemma float_tenth_error:
  assumes "0 \<le> k"
  shows "\<bar>float_round (of_int k / 10) - of_int k / 10\<bar> \<le> (of_int k / 10) / 2 ^ 24"
proof (cases "k = 0")
  case True
  then show ?thesis using float_round_of_int [of 0] by simp
next
  case False
  define x :: real where "x = of_int k / 10"
  have "1 \<le> k" using assms False by simp
  then have x: "1 / 10 \<le> x" by (simp add: x_def)
  have "pow2 (- 126) \<le> 1 / 10" by (simp add: pow2_def)
  then have "pow2 (- 126) \<le> \<bar>x\<bar>" using x by simp
  then have "pow2 (float_exponent x) \<le> \<bar>x\<bar>" by (rule float_exponent_lower)
  then have "pow2 (float_exponent x) \<le> x" using x by simp
  moreover have "pow2 (float_exponent x - 24) = pow2 (float_exponent x) / 2 ^ 24"
    using pow2_add [of "float_exponent x" "- 24"] by (simp add: pow2_def)
  ultimately have "pow2 (float_exponent x - 24) \<le> x / 2 ^ 24"
    by (simp add: divide_right_mono)
  then show ?thesis
    using float_round_error [of x] by (simp add: x_def)
qed

lemma float_tenth_exact:
  assumes "0 \<le> k" and "k \<le> 100" and "10 dvd k"
  shows "float_round (of_int k / 10) = of_int k / 10"
proof -
  from assms(3) obtain m where m: "k = 10 * m" by (auto simp add: dvd_def)
  then have "\<bar>m\<bar> < 2 ^ 24" using assms(1,2) by simp
  then show ?thesis using float_round_of_int [of m] by (simp add: m)
qed

text \<open>The levels of the example settings, and the level that the setting 1 gives.\<close>

lemma float_exponent_tenth: "float_exponent (1 / 10) = - 4"
  by (rule float_exponent_eq) (simp_all add: pow2_def)

lemma chip_level_arg_0: "chip_level_arg 0 = 0"
  using float_round_of_int [of 0] by (simp add: chip_level_arg_def)

lemma chip_level_arg_100: "chip_level_arg 100 = 10"
  using float_round_of_int [of 100] float_round_of_int [of 10]
  by (simp add: chip_level_arg_def)

lemma chip_level_arg_1: "chip_level_arg 1 = 13421773 / 134217728"
  using float_round_of_int [of 1]
  by (simp add: chip_level_arg_def float_round_def float_exponent_tenth
      pow2_def round_half_even_def)

subsection \<open>The chip levels\<close>

text \<open>
  Claim C1, as amended. After a run of \<open>ResetAudioDevice\<close> that returns true, the level of
  every chip in the APU is the persisted level \<open>k\<close> of that chip divided by ten in single
  precision (the source divides by \<open>10.0f\<close>), not by a hundred: the conversion of \<open>k\<close>
  to \<open>float\<close>, then the quotient by ten rounded to \<open>float\<close>. For a persisted level between
  0 and 100 the chip level lies between 0.0 and 10.0 and differs from \<open>k / 10\<close> by at most
  the fraction \<open>2^-24\<close> of it; it is \<open>k / 10\<close> exactly when ten divides \<open>k\<close>, so 100 gives
  10.0.
\<close>

theorem chip_level_is_single_precision_tenth:
  assumes "ResetAudioDevice_level chip s = Some level"
    and "k = sint (persisted_level chip (ChipLevels (theApp_Settings s)))"
  shows "level = float_round (float_round (of_int k) / 10)
         \<and> (0 \<le> k \<and> k \<le> 100
            \<longrightarrow> 0 \<le> level \<and> level \<le> 10
                \<and> \<bar>level - of_int k / 10\<bar> \<le> (of_int k / 10) / 2 ^ 24
                \<and> (10 dvd k \<longrightarrow> level = of_int k / 10))"
proof -
  from assms(1) obtain s' where r: "ResetAudioDevice s = Some (True, s')"
    and l: "level = ChipLevel (m_pAPU s') chip"
    by (auto simp add: ResetAudioDevice_level_def split: option.splits bool.splits)
  have eq: "level = float_round (float_round (of_int k) / 10)"
    using l ResetAudioDevice_True [OF r, of chip] by (simp add: chip_level_arg_def assms(2))
  have "0 \<le> level \<and> level \<le> 10
        \<and> \<bar>level - of_int k / 10\<bar> \<le> (of_int k / 10) / 2 ^ 24
        \<and> (10 dvd k \<longrightarrow> level = of_int k / 10)" if k: "0 \<le> k \<and> k \<le> 100"
  proof -
    from k have "\<bar>k\<bar> < 2 ^ 24" by simp
    then have "level = float_round (of_int k / 10)"
      unfolding eq by (simp only: float_round_of_int)
    then show ?thesis
      using k float_tenth_range [of k] float_tenth_error [of k] float_tenth_exact [of k]
      by simp
  qed
  then show ?thesis using eq by blast
qed

theorem chip_level_is_single_precision_tenth_witness:
  "ResetAudioDevice_level CHIP_LEVEL_APU1 example_state = Some 10
   \<and> sint (persisted_level CHIP_LEVEL_APU1 (ChipLevels (theApp_Settings example_state))) = 100
   \<and> (10 :: real) = float_round (float_round (of_int 100) / 10)
   \<and> \<bar>(10 :: real) - of_int 100 / 10\<bar> \<le> (of_int 100 / 10) / 2 ^ 24
   \<and> ResetAudioDevice_level CHIP_LEVEL_APU2
         (example_state\<lparr>theApp_Settings :=
            example_settings\<lparr>ChipLevels := (ChipLevels example_settings)\<lparr>iLevelAPU2 := 1\<rparr>\<rparr>\<rparr>) =
       Some (13421773 / 134217728)
   \<and> \<bar>(13421773 / 134217728 :: real) - of_int 1 / 10\<bar> \<le> (of_int 1 / 10) / 2 ^ 24"
  using chip_level_is_single_precision_tenth [of CHIP_LEVEL_APU1 example_state 10 100]
    chip_level_is_single_precision_tenth [of CHIP_LEVEL_APU2
      "example_state\<lparr>theApp_Settings :=
         example_settings\<lparr>ChipLevels := (ChipLevels example_settings)\<lparr>iLevelAPU2 := 1\<rparr>\<rparr>\<rparr>"
      "13421773 / 134217728" 1]
  by (simp add: ResetAudioDevice_level_def ResetAudioDevice_def Let_def prim_defs
      ResetAudioDevice_levels_def chip_level_arg_0 chip_level_arg_100 chip_level_arg_1
      example_state_def example_settings_def)

text \<open>
  The claim C1 as the specification states it fails: with a persisted level of 100 for
  the first chip, the chip level after the set-up is 10, not \<open>100 / 100\<close>.
\<close>

theorem chip_level_hundredth_counterexample:
  "ResetAudioDevice_level CHIP_LEVEL_APU1 example_state = Some 10
   \<and> ResetAudioDevice_level CHIP_LEVEL_APU1 example_state \<noteq> Some (100 / 100)"
  by (simp add: ResetAudioDevice_level_def ResetAudioDevice_def Let_def prim_defs
      ResetAudioDevice_levels_def chip_level_arg_0 chip_level_arg_100
      example_state_def example_settings_def)

section \<open>Properties of the channel muting\<close>

text \<open>
  Claim C10. \<open>SetChannelMute(c, mute)\<close> on a channel of the array leaves the record
  channel \<open>NONE\<close> when \<open>mute\<close> is true and \<open>c\<close> is the armed record channel; in every other
  case (another channel muted, or any channel unmuted) the record channel is what it was.
\<close>

theorem SetChannelMute_disarms_recording:
  assumes "muted_index s chan = Some i"
  shows "map_option GetRecordChannel (SetChannelMute chan mute s) =
           Some (if mute \<and> chan = GetRecordChannel s then NONE else GetRecordChannel s)"
  using assms
  by (simp add: SetChannelMute_def Let_def GetRecordChannel_def SetRecordChannel_def)

theorem SetChannelMute_disarms_recording_witness:
  "muted_index (SetRecordChannel (CHANID 2) example_state) (CHANID 2) = Some 2
   \<and> map_option GetRecordChannel
        (SetChannelMute (CHANID 2) True (SetRecordChannel (CHANID 2) example_state)) = Some NONE
   \<and> map_option GetRecordChannel
        (SetChannelMute (CHANID 1) True (SetRecordChannel (CHANID 2) example_state)) = Some (CHANID 2)
   \<and> map_option GetRecordChannel
        (SetChannelMute (CHANID 2) False (SetRecordChannel (CHANID 2) example_state)) = Some (CHANID 2)"
  using SetChannelMute_disarms_recording [of "SetRecordChannel (CHANID 2) example_state" "CHANID 2" 2 True]
    SetChannelMute_disarms_recording [of "SetRecordChannel (CHANID 2) example_state" "CHANID 1" 1 True]
    SetChannelMute_disarms_recording [of "SetRecordChannel (CHANID 2) example_state" "CHANID 2" 2 False]
  by (simp add: muted_index_def GetRecordChannel_def SetRecordChannel_def example_state_def)

section \<open>Properties of the start of playback\<close>

lemma BeginPlayer_parts:
  assumes "m_pDocument s = Some doc" and "FileLoaded doc"
      and "m_pAudioDriver s = Some a" and "AudioDeviceOpen a"
  shows "BeginPlayer Pos s = BeginPlayer_from_MakeSilent (BeginPlayer_after_ResetAPU Pos s)"
  using assms
  unfolding BeginPlayer_def BeginPlayer_from_MakeSilent_def BeginPlayer_after_ResetAPU_def
    Let_def
  by simp

lemma BeginPlayer_after_ResetAPU_eq:
  assumes "m_pDocument s = Some doc"
  shows "calls_made (BeginPlayer_after_ResetAPU Pos) s =
           [Driver_call (Driver_StartPlayer Pos),
            Driver_call (Tempo_LoadTempo (CurrentSong Pos)),
            APU_call APU_Reset, APU_call (APU_Write 0x4015 0x0F),
            APU_call (APU_Write 0x4017 0x00), APU_call (APU_Write 0x4023 0x02),
            APU_call (APU_Write 0x5015 0x03), APU_call APU_ClearSample]"
    and "Regs (m_pAPU (BeginPlayer_after_ResetAPU Pos s)) =
           (PowerOn (m_pAPU s))(0x4015 := 0x0F, 0x4017 := 0x00, 0x4023 := 0x02, 0x5015 := 0x03)"
    and "PowerOn (m_pAPU (BeginPlayer_after_ResetAPU Pos s)) = PowerOn (m_pAPU s)"
  using assms
  by (simp_all add: calls_made_def BeginPlayer_after_ResetAPU_def Let_def
      CSoundDriver_StartPlayer_def ResetTempo_eq ResetAPU_eq note_call_def)

lemma BeginPlayer_from_MakeSilent_regs:
  "BeginPlayer_from_MakeSilent t = Some s' \<Longrightarrow> Regs (m_pAPU s') = PowerOn (m_pAPU t)"
  by (auto simp add: BeginPlayer_from_MakeSilent_def Let_def MakeSilent_eq ApplyGlobalState_def
      note_call_def split: option.splits if_splits prod.splits)

text \<open>
  Claim C5. Whenever \<open>BeginPlayer\<close> starts playback (document loaded, audio device open),
  it returns with the player playing, and it resets the APU before any row is decoded:
  none of its calls is a tick of the driver, which is where rows are decoded, and its
  first eight calls are the driver's start, the tempo reset and the calls of \<open>ResetAPU\<close>,
  namely the APU's \<open>Reset\<close> followed by the writes of \<open>0x0F\<close> to \<open>0x4015\<close>, \<open>0x00\<close> to
  \<open>0x4017\<close>, \<open>0x02\<close> to \<open>0x4023\<close> and \<open>0x03\<close> to \<open>0x5015\<close>. Inside \<open>BeginPlayer\<close>, in the
  state where \<open>ResetAPU()\<close> has returned, the register image is the power-on image with
  these four registers set; in particular \<open>0x4015\<close> holds \<open>0x0F\<close> immediately after that
  reset. \<open>BeginPlayer\<close> goes on from that state with \<open>MakeSilent()\<close>, which calls the
  APU's \<open>Reset\<close> once more and writes no register: when \<open>BeginPlayer\<close> returns, which is
  the state in which the first row will be decoded, the register image is the power-on
  image of the APU (so \<open>0x4015\<close> holds what the power-on image holds there).
\<close>

theorem playback_start_resets_APU:
  assumes "m_pDocument s = Some doc" and "FileLoaded doc"
      and "m_pAudioDriver s = Some a" and "AudioDeviceOpen a"
  shows "map_option IsPlaying (BeginPlayer Pos s) = Some True
         \<and> BeginPlayer Pos s = BeginPlayer_from_MakeSilent (BeginPlayer_after_ResetAPU Pos s)
         \<and> calls_made (BeginPlayer_after_ResetAPU Pos) s =
             [Driver_call (Driver_StartPlayer Pos),
              Driver_call (Tempo_LoadTempo (CurrentSong Pos)),
              APU_call APU_Reset, APU_call (APU_Write 0x4015 0x0F),
              APU_call (APU_Write 0x4017 0x00), APU_call (APU_Write 0x4023 0x02),
              APU_call (APU_Write 0x5015 0x03), APU_call APU_ClearSample]
         \<and> map_option (take 8) (BeginPlayer_calls Pos s) =
             Some (calls_made (BeginPlayer_after_ResetAPU Pos) s)
         \<and> map_option (\<lambda>cs. Driver_call Driver_Tick \<in> set cs) (BeginPlayer_calls Pos s) = Some False
         \<and> Regs (m_pAPU (BeginPlayer_after_ResetAPU Pos s)) =
             (PowerOn (m_pAPU s))(0x4015 := 0x0F, 0x4017 := 0x00, 0x4023 := 0x02, 0x5015 := 0x03)
         \<and> Regs (m_pAPU (BeginPlayer_after_ResetAPU Pos s)) 0x4015 = 0x0F
         \<and> map_option (Regs \<circ> m_pAPU) (BeginPlayer Pos s) = Some (PowerOn (m_pAPU s))"
proof -
  from BeginPlayer_started [OF assms, of Pos] obtain s' rest where
    b: "BeginPlayer Pos s = Some s'" and p: "IsPlaying s'"
    and c: "Calls s' = Calls s @ Driver_call (Driver_StartPlayer Pos)
                 # Driver_call (Tempo_LoadTempo (CurrentSong Pos))
                 # [APU_call APU_Reset, APU_call (APU_Write 0x4015 0x0F),
                    APU_call (APU_Write 0x4017 0x00), APU_call (APU_Write 0x4023 0x02),
                    APU_call (APU_Write 0x5015 0x03), APU_call APU_ClearSample] @ rest"
    and t: "Driver_call Driver_Tick \<notin> set rest"
    by blast
  note parts = BeginPlayer_parts [OF assms, of Pos]
  note after = BeginPlayer_after_ResetAPU_eq [OF assms(1), of Pos]
  have cs: "BeginPlayer_calls Pos s = Some (Driver_call (Driver_StartPlayer Pos)
                 # Driver_call (Tempo_LoadTempo (CurrentSong Pos))
                 # [APU_call APU_Reset, APU_call (APU_Write 0x4015 0x0F),
                    APU_call (APU_Write 0x4017 0x00), APU_call (APU_Write 0x4023 0x02),
                    APU_call (APU_Write 0x5015 0x03), APU_call APU_ClearSample] @ rest)"
    by (simp add: BeginPlayer_calls_def b c)
  have 1: "map_option IsPlaying (BeginPlayer Pos s) = Some True"
    by (simp add: b p)
  have 4: "map_option (take 8) (BeginPlayer_calls Pos s) =
             Some (calls_made (BeginPlayer_after_ResetAPU Pos) s)"
    by (simp add: cs after(1))
  have 5: "map_option (\<lambda>cs. Driver_call Driver_Tick \<in> set cs) (BeginPlayer_calls Pos s) = Some False"
    using t by (simp add: cs)
  have 7: "Regs (m_pAPU (BeginPlayer_after_ResetAPU Pos s)) 0x4015 = 0x0F"
    by (simp add: after(2))
  from b have "BeginPlayer_from_MakeSilent (BeginPlayer_after_ResetAPU Pos s) = Some s'"
    by (simp add: parts)
  from BeginPlayer_from_MakeSilent_regs [OF this] have
    8: "map_option (Regs \<circ> m_pAPU) (BeginPlayer Pos s) = Some (PowerOn (m_pAPU s))"
    by (simp add: b after(3))
  from 1 parts after(1) 4 5 after(2) 7 8 show ?thesis by blast
qed

theorem playback_start_resets_APU_witness:
  "map_option IsPlaying (BeginPlayer (CPlayerCursor_new 0) example_state) = Some True
   \<and> map_option (take 8) (BeginPlayer_calls (CPlayerCursor_new 0) example_state) =
         Some [Driver_call (Driver_StartPlayer (CPlayerCursor_new 0)),
               Driver_call (Tempo_LoadTempo 0),
               APU_call APU_Reset, APU_call (APU_Write 0x4015 0x0F), APU_call (APU_Write 0x4017 0x00),
               APU_call (APU_Write 0x4023 0x02), APU_call (APU_Write 0x5015 0x03),
               APU_call APU_ClearSample]
   \<and> Regs (m_pAPU (BeginPlayer_after_ResetAPU (CPlayerCursor_new 0) example_state)) 0x4015 = 0x0F
   \<and> map_option (Regs \<circ> m_pAPU) (BeginPlayer (CPlayerCursor_new 0) example_state) =
       Some (PowerOn (m_pAPU example_state))"
  using playback_start_resets_APU [of example_state example_document
          "\<lparr>AudioDeviceOpen = True\<rparr>" "CPlayerCursor_new 0"]
  by (simp add: example_state_def example_document_def example_settings_def CPlayerCursor_new_def
      BeginPlayer_calls_def BeginPlayer_def Let_def IsPlaying_def CSoundDriver_StartPlayer_def
      ResetTempo_eq ResetAPU_eq MakeSilent_eq note_call_def calls_made_def
      BeginPlayer_after_ResetAPU_def BeginPlayer_from_MakeSilent_def ApplyGlobalState_def
      GetPlayerPos_def GetPlayerTrack_def DEFAULT_AVERAGE_BPM_SIZE_def)

section \<open>Properties of the wait for the player to stop\<close>

text \<open>
  Claim C7. \<open>WaitForStop\<close> always returns, after at most 40 calls of \<open>Sleep(100)\<close>, that
  is after at most 4000 ms of sleeping, whatever the player thread does meanwhile; the
  flag it returns is true exactly when the player is not playing at the return. On a
  healthy engine (the thread exists, no render session is there to restart the player,
  and during the first \<open>Sleep(100)\<close> the player thread completes at least one round of
  its loop without crashing), \<open>StopPlayer\<close> followed by \<open>WaitForStop\<close> returns true after
  at most one \<open>Sleep(100)\<close>.
\<close>

theorem WaitForStop_bounded_poll:
  assumes "m_hThread s" and "m_pWaveRenderer s = None" and "0 < rounds 0"
      and "PlayerThread (rounds 0) (StopPlayer s) \<noteq> None"
  shows "fst (snd (WaitForStop Sleep t)) \<le> 40
         \<and> 100 * fst (snd (WaitForStop Sleep t)) \<le> 4000
         \<and> fst (WaitForStop Sleep t) = (\<not> IsPlaying (snd (snd (WaitForStop Sleep t))))
         \<and> fst (WaitForStop (Sleep_while_thread_runs rounds) (StopPlayer s)) = True
         \<and> fst (snd (WaitForStop (Sleep_while_thread_runs rounds) (StopPlayer s))) \<le> 1"
proof -
  let ?s1 = "StopPlayer s"
  let ?S = "Sleep_while_thread_runs rounds"
  have q: "MessageQueue ?s1 = MessageQueue s @ [WM_USER_STOP]"
    and r: "m_pWaveRenderer ?s1 = None"
    using assms(1,2) by (simp_all add: StopPlayer_def PostThreadMessage_def)
  from assms(4) obtain u where u: "PlayerThread (rounds 0) ?s1 = Some u" by auto
  have nu: "\<not> IsPlaying u"
    by (rule PlayerThread_after_stop [OF u assms(3) r q])
  have S0: "?S 0 ?s1 = u"
    by (simp add: Sleep_while_thread_runs_def u)
  have loop: "WaitForStop_loop ?S 0 ?s1 = (if IsPlaying ?s1 then (1, u) else (0, ?s1))"
  proof (cases "IsPlaying ?s1")
    case True
    then have "WaitForStop_loop ?S 0 ?s1 = WaitForStop_loop ?S (0 + 1) (?S 0 ?s1)"
      by (intro WaitForStop_loop_step) simp_all
    also have "\<dots> = (1, u)"
      unfolding S0 using nu by (simp add: WaitForStop_loop_stop)
    finally show ?thesis using True by simp
  next
    case False
    then show ?thesis by (simp add: WaitForStop_loop_stop)
  qed
  have a: "fst (WaitForStop ?S ?s1) = True \<and> fst (snd (WaitForStop ?S ?s1)) \<le> 1"
    using nu by (simp add: WaitForStop_def loop)
  from WaitForStop_result [of Sleep t] a show ?thesis by simp
qed

theorem WaitForStop_bounded_poll_witness:
  "fst (WaitForStop (Sleep_while_thread_runs (\<lambda>i. 1)) (StopPlayer example_playing)) = True
   \<and> fst (snd (WaitForStop (Sleep_while_thread_runs (\<lambda>i. 1)) (StopPlayer example_playing))) \<le> 1
   \<and> fst (snd (WaitForStop (\<lambda>i s. s) example_playing)) \<le> 40
   \<and> fst (WaitForStop (\<lambda>i s. s) example_playing) =
       (\<not> IsPlaying (snd (snd (WaitForStop (\<lambda>i s. s) example_playing))))"
  using WaitForStop_bounded_poll [of example_playing "\<lambda>i. 1" "\<lambda>i s. s" example_playing]
  by (simp add: example_playing_def example_state_def example_document_def example_settings_def
      StopPlayer_def PostThreadMessage_def PlayerThread_round_def OnStopPlayer_def
      HaltPlayer_eq IdleLoop_def Let_def CSoundDriver_Tick_def UpdateAPU_def
      CSoundDriver_UpdateAPU_def IsPlaying_def note_call_def CPlayerCursor_new_def)

section \<open>Properties of the tempo display\<close>

lemma take_Cons_take: "take C (x # take C xs) = take C (x # xs)"
  by (cases C) (simp_all add: min_def)

lemma CTempoDisplay_Tick_simps:
  "History (CTempoDisplay_Tick t td) = take (CacheSize td) (t # History td)"
  "CacheSize (CTempoDisplay_Tick t td) = CacheSize td"
  by (simp_all add: CTempoDisplay_Tick_def)

lemma TempoDisplay_ticks:
  "History ((CTempoDisplay_Tick t ^^ Suc n) td) =
     take (CacheSize td) (replicate (Suc n) t @ History td)
   \<and> CacheSize ((CTempoDisplay_Tick t ^^ Suc n) td) = CacheSize td"
proof (induction n)
  case 0
  then show ?case by (simp add: CTempoDisplay_Tick_simps)
next
  case (Suc n)
  define X where "X = (CTempoDisplay_Tick t ^^ Suc n) td"
  from Suc have H: "History X = take (CacheSize td) (replicate (Suc n) t @ History td)"
    and C: "CacheSize X = CacheSize td"
    unfolding X_def by blast+
  have step: "(CTempoDisplay_Tick t ^^ Suc (Suc n)) td = CTempoDisplay_Tick t X"
    unfolding X_def by simp
  have "History (CTempoDisplay_Tick t X) =
          take (CacheSize td) (t # take (CacheSize td) (replicate (Suc n) t @ History td))"
    by (simp only: CTempoDisplay_Tick_simps H C)
  also have "\<dots> = take (CacheSize td) (replicate (Suc (Suc n)) t @ History td)"
    by (simp only: take_Cons_take replicate_Suc append_Cons)
  finally show ?case
    unfolding step by (simp only: CTempoDisplay_Tick_simps C simp_thms)
qed

lemma take_replicate_append: "C \<le> k \<Longrightarrow> take C (replicate k t @ H) = replicate C t"
  by (simp add: min_def)

lemma TempoDisplay_filled:
  assumes "CacheSize td \<le> n" and "0 < CacheSize td"
  shows "CTempoDisplay_GetAverageBPM ((CTempoDisplay_Tick t ^^ n) td) = Some t
         \<and> length (History ((CTempoDisplay_Tick t ^^ n) td)) = CacheSize td"
proof -
  from assms obtain m where n: "n = Suc m" by (cases n) auto
  have "History ((CTempoDisplay_Tick t ^^ n) td) =
          take (CacheSize td) (replicate n t @ History td)"
    unfolding n using TempoDisplay_ticks [where t = t and n = m and td = td] by blast
  then have h: "History ((CTempoDisplay_Tick t ^^ n) td) = replicate (CacheSize td) t"
    using assms(1) by (simp only: take_replicate_append)
  show ?thesis
    using assms by (simp add: CTempoDisplay_GetAverageBPM_def h sum_list_replicate)
qed

lemma OnTick_display:
  "OnTick s = Some s' \<Longrightarrow>
     m_pTempoDisplay s' = map_option (CTempoDisplay_Tick (m_pTempoCounter s)) (m_pTempoDisplay s)"
  by (auto simp add: OnTick_def Let_def note_call_def split: option.splits if_splits)

lemma OnTick_times_display:
  "OnTick_times n t s = Some s' \<Longrightarrow>
     m_pTempoDisplay s' = map_option (CTempoDisplay_Tick t ^^ n) (m_pTempoDisplay s)"
proof (induction n arbitrary: s)
  case 0
  then show ?case by (simp add: option.map_ident)
next
  case (Suc n)
  from Suc.prems obtain s1 where
    a: "OnTick (s\<lparr>m_pTempoCounter := t\<rparr>) = Some s1" and b: "OnTick_times n t s1 = Some s'"
    by (auto split: option.splits)
  from OnTick_display [OF a] have
    "m_pTempoDisplay s1 = map_option (CTempoDisplay_Tick t) (m_pTempoDisplay s)" by simp
  with Suc.IH [OF b] show ?case
    by (simp add: option.map_comp funpow_swap1 comp_def)
qed

text \<open>
  Claim C9. The window size handed to the tempo display is the constant 24:
  \<open>BeginPlayer\<close>, when it starts playback with averaging enabled, creates the display
  with a window of 24 samples. And for every tempo \<open>t\<close>, once a display of that window
  size has taken 24 or more samples while the tempo counter answers \<open>t\<close>, it holds
  exactly 24 samples and the averaged BPM equals \<open>t\<close>, whatever the display held before.
  Tempo values are real numbers here.
\<close>

theorem tempo_average_of_constant_tempo:
  assumes "m_pDocument s0 = Some doc" and "FileLoaded doc"
      and "m_pAudioDriver s0 = Some a" and "AudioDeviceOpen a"
      and "bAverageBPM (theApp_Settings s0)"
      and "m_pTempoDisplay s = Some td" and "CacheSize td = DEFAULT_AVERAGE_BPM_SIZE"
      and "DEFAULT_AVERAGE_BPM_SIZE \<le> n" and "OnTick_times n t s = Some s'"
  shows "DEFAULT_AVERAGE_BPM_SIZE = 24
         \<and> map_option m_pTempoDisplay (BeginPlayer Pos s0) =
             Some (Some \<lparr>CacheSize = 24, History = []\<rparr>)
         \<and> map_option (length \<circ> History) (m_pTempoDisplay s') = Some 24
         \<and> GetAverageBPM s' = Some t"
proof -
  from BeginPlayer_started [OF assms(1-4), of Pos] assms(5) obtain s1 where
    "BeginPlayer Pos s0 = Some s1"
    and "m_pTempoDisplay s1 = Some \<lparr>CacheSize = DEFAULT_AVERAGE_BPM_SIZE, History = []\<rparr>"
    by auto
  then have 1: "map_option m_pTempoDisplay (BeginPlayer Pos s0) =
             Some (Some \<lparr>CacheSize = 24, History = []\<rparr>)"
    by (simp add: DEFAULT_AVERAGE_BPM_SIZE_def)
  have d: "m_pTempoDisplay s' = Some ((CTempoDisplay_Tick t ^^ n) td)"
    using OnTick_times_display [OF assms(9)] assms(6) by simp
  from assms(7,8) have "CacheSize td \<le> n" and "0 < CacheSize td"
    by (simp_all add: DEFAULT_AVERAGE_BPM_SIZE_def)
  from TempoDisplay_filled [OF this, of t] assms(7) have
    "CTempoDisplay_GetAverageBPM ((CTempoDisplay_Tick t ^^ n) td) = Some t"
    and "length (History ((CTempoDisplay_Tick t ^^ n) td)) = 24"
    by (simp_all add: DEFAULT_AVERAGE_BPM_SIZE_def)
  with d 1 show ?thesis
    by (simp add: GetAverageBPM_def DEFAULT_AVERAGE_BPM_SIZE_def)
qed


theorem tempo_average_of_constant_tempo_witness:
  "map_option m_pTempoDisplay (BeginPlayer (CPlayerCursor_new 0) example_state) =
     Some (Some \<lparr>CacheSize = 24, History = []\<rparr>)
   \<and> map_option GetAverageBPM
        (OnTick_times 24 150
           (example_state\<lparr>m_pTempoDisplay := Some \<lparr>CacheSize = 24, History = [120, 90]\<rparr>\<rparr>)) =
       Some (Some 150)"
proof -
  let ?s = "example_state\<lparr>m_pTempoDisplay := Some \<lparr>CacheSize = 24, History = [120, 90]\<rparr>\<rparr>"
  obtain s' where t: "OnTick_times 24 150 ?s = Some s'"
    by (simp add: eval_nat_numeral OnTick_def Let_def is_rendering_impl_def note_call_def
        example_state_def example_settings_def)
  from tempo_average_of_constant_tempo [of example_state example_document
      "\<lparr>AudioDeviceOpen = True\<rparr>" ?s "\<lparr>CacheSize = 24, History = [120, 90]\<rparr>" 24 150 s'
      "CPlayerCursor_new 0"] t
  show ?thesis
    by (simp add: example_state_def example_settings_def example_document_def
        DEFAULT_AVERAGE_BPM_SIZE_def)
qed

section \<open>Properties of rendering to a file\<close>

text \<open>
  Claim C6. \<open>RenderToFile\<close> returns false and changes nothing when no renderer is
  supplied. When the output file cannot be opened at the configured sample rate and
  size, it returns false, its last call is the message box for the file-open error, the
  only message it posts to the player thread is a stop request (none without a thread),
  and it leaves the sound driver as the wait for the player left it: the player is
  playing afterwards only if it was playing and the wait did not see it stop, so a
  player stopped in preparation remains stopped.
\<close>

theorem RenderToFile_failures:
  assumes "\<not> OpenFile_ok pFile (iSampleRate (Sound (theApp_Settings (RenderToFile_halt Sleep s))))
               (iSampleSize (Sound (theApp_Settings (RenderToFile_halt Sleep s)))) 1"
  shows "RenderToFile Sleep' OpenFile_ok' pFile' None s' = (False, s')
         \<and> fst (RenderToFile Sleep OpenFile_ok pFile (Some r) s) = False
         \<and> Calls (snd (RenderToFile Sleep OpenFile_ok pFile (Some r) s)) =
             Calls (RenderToFile_halt Sleep s) @ [UI_call (AfxMessageBox IDS_FILE_OPEN_ERROR)]
         \<and> MessageQueue (snd (RenderToFile Sleep OpenFile_ok pFile (Some r) s)) =
             MessageQueue (RenderToFile_halt Sleep s) @
               (if m_hThread (RenderToFile_halt Sleep s) then [WM_USER_STOP] else [])
         \<and> m_pSoundDriver (snd (RenderToFile Sleep OpenFile_ok pFile (Some r) s)) =
             m_pSoundDriver (RenderToFile_halt Sleep s)
         \<and> IsPlaying (snd (RenderToFile Sleep OpenFile_ok pFile (Some r) s)) =
             (IsPlaying s \<and> \<not> fst (WaitForStop Sleep (s\<lparr>m_bHaltRequest := True\<rparr>)))"
proof -
  have p: "IsPlaying (RenderToFile_halt Sleep s) =
             (IsPlaying s \<and> \<not> fst (WaitForStop Sleep (s\<lparr>m_bHaltRequest := True\<rparr>)))"
    using WaitForStop_result [of Sleep "s\<lparr>m_bHaltRequest := True\<rparr>"]
    by (simp add: RenderToFile_halt_def)
  show ?thesis
    using assms p
    by (simp add: RenderToFile_def Let_def StopPlayer_def PostThreadMessage_def note_call_def
        IsPlaying_def)
qed

theorem RenderToFile_failures_witness:
  "RenderToFile (\<lambda>i s. s) (\<lambda>f r z c. False) ''out.wav'' None example_playing = (False, example_playing)
   \<and> fst (RenderToFile (Sleep_while_thread_runs (\<lambda>i. 1)) (\<lambda>f r z c. False) ''out.wav''
            (Some example_renderer) example_playing) = False
   \<and> IsPlaying (snd (RenderToFile (Sleep_while_thread_runs (\<lambda>i. 1)) (\<lambda>f r z c. False) ''out.wav''
            (Some example_renderer) example_playing)) = False
   \<and> MessageQueue (snd (RenderToFile (Sleep_while_thread_runs (\<lambda>i. 1)) (\<lambda>f r z c. False)
            ''out.wav'' (Some example_renderer) example_playing)) = [WM_USER_STOP]"
  using RenderToFile_failures [of "\<lambda>f r z c. False" "''out.wav''"
          "Sleep_while_thread_runs (\<lambda>i. 1)" example_playing "\<lambda>i s. s" "\<lambda>f r z c. False"
          "''out.wav''" example_playing example_renderer]
  by (simp add: RenderToFile_halt_def WaitForStop_def WaitForStop_loop.simps example_defs
      thread_defs)

section \<open>Properties of muted channels and queued notes\<close>

lemma map_of_filter_other:
  "c \<noteq> i \<Longrightarrow> map_of (filter (\<lambda>e. fst e \<noteq> i) q) c = map_of q c"
  by (induction q) auto

lemma QueueNote_effect:
  assumes "QueueNote i n p s = Some s'"
  shows "muted s' = muted s \<and> m_pDocument s' = m_pDocument s
         \<and> Calls s' = Calls s @ [Driver_call (Driver_QueueNote i n p),
                                  UI_call (MIDI_WriteNote (ChannelIndex (the (m_pDocument s)) i)
                                             (Note n) (Octave n) (Vol n))]
         \<and> (c \<noteq> i \<longrightarrow> pending_note (QueuedNotes (m_pSoundDriver s')) c =
                          pending_note (QueuedNotes (m_pSoundDriver s)) c)"
  using assms
  by (auto simp add: QueueNote_def CSoundDriver_QueueNote_def Let_def note_call_def
      pending_note_def map_of_filter_other map_add_def split: option.splits)

lemma IsChannelMuted_cong:
  "muted s' = muted s \<Longrightarrow> IsChannelMuted c s' = IsChannelMuted c s"
  by (simp add: IsChannelMuted_def muted_index_def split: chan_id_t.splits)

lemma PlaySingleRow_channels_muted:
  assumes "IsChannelMuted c s = Some True"
      and "PlaySingleRow_channels doc track frame row chans s = Some s'"
  shows "muted s' = muted s
         \<and> pending_note (QueuedNotes (m_pSoundDriver s')) c =
             pending_note (QueuedNotes (m_pSoundDriver s)) c
         \<and> (\<exists>new. Calls s' = Calls s @ new \<and> c \<notin> set (List.map_filter QueueNote_channel new))"
  using assms
proof (induction chans arbitrary: s)
  case Nil
  then show ?case by (simp add: List.map_filter_simps)
next
  case (Cons i rest)
  show ?case
  proof (cases "IsChannelMuted i s")
    case None
    with Cons.prems show ?thesis by simp
  next
    case (Some m)
    show ?thesis
    proof (cases m)
      case True
      with Some Cons.prems have "PlaySingleRow_channels doc track frame row rest s = Some s'"
        by simp
      from Cons.IH [OF Cons.prems(1) this] show ?thesis .
    next
      case False
      with Some Cons.prems(1) have ne: "c \<noteq> i" by auto
      from False Some Cons.prems(2) obtain s1 where
        q: "QueueNote i (ActiveNote doc track frame i row) NOTE_PRIO_1 s = Some s1"
        and r: "PlaySingleRow_channels doc track frame row rest s1 = Some s'"
        by (auto split: option.splits)
      from QueueNote_effect [OF q, of c] ne have
        m1: "muted s1 = muted s"
        and p1: "pending_note (QueuedNotes (m_pSoundDriver s1)) c =
                   pending_note (QueuedNotes (m_pSoundDriver s)) c"
        and c1: "\<exists>x. Calls s1 = Calls s @ [Driver_call (Driver_QueueNote i
                        (ActiveNote doc track frame i row) NOTE_PRIO_1), x]"
        by auto
      from c1 obtain x where c1': "Calls s1 = Calls s @ [Driver_call (Driver_QueueNote i
                        (ActiveNote doc track frame i row) NOTE_PRIO_1), x]" and
        x: "x = UI_call (MIDI_WriteNote (ChannelIndex (the (m_pDocument s)) i)
                  (Note (ActiveNote doc track frame i row)) (Octave (ActiveNote doc track frame i row))
                  (Vol (ActiveNote doc track frame i row)))"
        using QueueNote_effect [OF q, of c] by auto
      have mu1: "IsChannelMuted c s1 = Some True"
        using Cons.prems(1) IsChannelMuted_cong [OF m1, of c] by simp
      from Cons.IH [OF mu1 r] obtain new where
        m2: "muted s' = muted s1"
        and p2: "pending_note (QueuedNotes (m_pSoundDriver s')) c =
                   pending_note (QueuedNotes (m_pSoundDriver s1)) c"
        and c2: "Calls s' = Calls s1 @ new"
        and n2: "c \<notin> set (List.map_filter QueueNote_channel new)"
        by blast
      have "Calls s' = Calls s @ ([Driver_call (Driver_QueueNote i
                        (ActiveNote doc track frame i row) NOTE_PRIO_1), x] @ new)"
        using c1' c2 by simp
      moreover have "c \<notin> set (List.map_filter QueueNote_channel
                        ([Driver_call (Driver_QueueNote i
                        (ActiveNote doc track frame i row) NOTE_PRIO_1), x] @ new))"
        using n2 ne by (simp add: List.map_filter_simps QueueNote_channel_def x)
      ultimately show ?thesis using m1 m2 p1 p2 by metis
    qed
  qed
qed


lemma ApplyGlobalState_effect:
  assumes "ApplyGlobalState s = Some s'"
  shows "muted s' = muted s \<and> m_pSoundDriver s' = m_pSoundDriver s
         \<and> (\<exists>t f r. Calls s' = Calls s @ [Driver_call (Driver_LoadSoundState t f r)])"
  using assms
  by (auto simp add: ApplyGlobalState_def note_call_def split: option.splits if_splits prod.splits)

lemma map_of_filter_same: "map_of (filter (\<lambda>e. fst e \<noteq> c) q) c = None"
  by (induction q) auto

lemma QueueNote_forwards:
  assumes "m_pDocument t = Some doc"
  shows "map_option (\<lambda>u. pending_note (QueuedNotes (m_pSoundDriver u)) c)
           (QueueNote c n NOTE_PRIO_2 t) = Some (Some (n, NOTE_PRIO_2))"
proof -
  have "\<not> prio_rank NOTE_PRIO_2 < prio_rank p" for p
    by (cases p) simp_all
  then show ?thesis
    using assms
    by (simp add: QueueNote_def CSoundDriver_QueueNote_def Let_def note_call_def
        pending_note_def map_of_filter_same map_add_def split: option.splits)
qed

text \<open>
  \<open>PlaySingleRow\<close> hands no note of a muted channel to the sound driver: when channel \<open>c\<close>
  is muted, none of the \<open>QueueNote\<close> calls that a run of \<open>PlaySingleRow\<close> makes on the
  driver is for \<open>c\<close>, and \<open>c\<close> is still muted afterwards. (\<open>QueueNote\<close> itself forwards
  every note to the driver, see \<open>QueueNote_forwards\<close>.)
\<close>

lemma PlaySingleRow_skips_muted_channel:
  assumes "IsChannelMuted c s = Some True"
      and "PlaySingleRow track s = Some s'"
      and "IsChannelMuted c t = Some True"
      and "m_pDocument t = Some doc'"
  shows "map_option (\<lambda>cs. c \<in> set (List.map_filter QueueNote_channel cs))
           (PlaySingleRow_calls track s) = Some False
         \<and> pending_note (QueuedNotes (m_pSoundDriver s')) c =
             pending_note (QueuedNotes (m_pSoundDriver s)) c
         \<and> IsChannelMuted c s' = Some True
         \<and> map_option (\<lambda>u. pending_note (QueuedNotes (m_pSoundDriver u)) c)
             (QueueNote c n NOTE_PRIO_2 t) = Some (Some (n, NOTE_PRIO_2))"
proof -
  let ?s1 = "s\<lparr>m_iLastTrack := track\<rparr>"
  from assms(2) obtain s2 v doc where
    g: "(if \<not> m_bPlayingSingleRow ?s1
         then map_option (\<lambda>t. t\<lparr>m_bPlayingSingleRow := True\<rparr>) (ApplyGlobalState ?s1)
         else Some ?s1) = Some s2"
    and v: "m_pTrackerView s2 = Some v" and d: "m_pDocument s2 = Some doc"
    and r: "PlaySingleRow_channels doc track (fst (SelectedPos v)) (snd (SelectedPos v))
              (Channels doc) s2 = Some s'"
    by (auto simp add: PlaySingleRow_def Let_def split: option.splits)
  have s2: "muted s2 = muted s \<and> m_pSoundDriver s2 = m_pSoundDriver s
            \<and> (\<exists>pre. Calls s2 = Calls s @ pre \<and> List.map_filter QueueNote_channel pre = [])"
  proof (cases "m_bPlayingSingleRow ?s1")
    case True
    with g have "s2 = ?s1" by simp
    then show ?thesis by (simp add: List.map_filter_simps)
  next
    case False
    with g obtain t where a: "ApplyGlobalState ?s1 = Some t"
      and t: "s2 = t\<lparr>m_bPlayingSingleRow := True\<rparr>" by auto
    from ApplyGlobalState_effect [OF a] t show ?thesis
      by (auto simp add: List.map_filter_simps QueueNote_channel_def)
  qed
  then obtain pre where m2: "muted s2 = muted s" and d2: "m_pSoundDriver s2 = m_pSoundDriver s"
    and c2: "Calls s2 = Calls s @ pre" and n2: "List.map_filter QueueNote_channel pre = []"
    by blast
  have mu2: "IsChannelMuted c s2 = Some True"
    using assms(1) IsChannelMuted_cong [OF m2, of c] by simp
  from PlaySingleRow_channels_muted [OF mu2 r] obtain new where
    m3: "muted s' = muted s2"
    and p3: "pending_note (QueuedNotes (m_pSoundDriver s')) c =
               pending_note (QueuedNotes (m_pSoundDriver s2)) c"
    and c3: "Calls s' = Calls s2 @ new"
    and n3: "c \<notin> set (List.map_filter QueueNote_channel new)"
    by blast
  have calls: "PlaySingleRow_calls track s = Some (pre @ new)"
    using assms(2) c2 c3 by (simp add: PlaySingleRow_calls_def)
  have "List.map_filter QueueNote_channel (pre @ new) = List.map_filter QueueNote_channel new"
    using n2 by (simp add: List.map_filter_def)
  with n3 have 1: "map_option (\<lambda>cs. c \<in> set (List.map_filter QueueNote_channel cs))
           (PlaySingleRow_calls track s) = Some False"
    by (simp add: calls)
  have 3: "IsChannelMuted c s' = Some True"
    using mu2 IsChannelMuted_cong [OF m3, of c] by simp
  have 4: "map_option (\<lambda>u. pending_note (QueuedNotes (m_pSoundDriver u)) c)
             (QueueNote c n NOTE_PRIO_2 t) = Some (Some (n, NOTE_PRIO_2))"
    using assms(4) by (rule QueueNote_forwards)
  from 1 p3 d2 3 4 show ?thesis by simp
qed

lemma PlaySingleRow_skips_muted_channel_example:
  "IsChannelMuted (CHANID 2) (example_state\<lparr>muted := [False, False, True, False, False]\<rparr>) = Some True
   \<and> map_option (List.map_filter QueueNote_channel)
        (PlaySingleRow_calls 0 (example_state\<lparr>muted := [False, False, True, False, False]\<rparr>)) =
       Some [CHANID 0, CHANID 1, CHANID 3, CHANID 4]
   \<and> map_option (\<lambda>cs. CHANID 2 \<in> set (List.map_filter QueueNote_channel cs))
        (PlaySingleRow_calls 0 (example_state\<lparr>muted := [False, False, True, False, False]\<rparr>)) =
       Some False"
proof -
  let ?s = "example_state\<lparr>muted := [False, False, True, False, False]\<rparr>"
  have m: "IsChannelMuted (CHANID 2) ?s = Some True"
    by (simp add: IsChannelMuted_def muted_index_def example_defs)
  have c: "map_option (List.map_filter QueueNote_channel) (PlaySingleRow_calls 0 ?s) =
       Some [CHANID 0, CHANID 1, CHANID 3, CHANID 4]"
    by (simp add: PlaySingleRow_calls_def PlaySingleRow_def Let_def ApplyGlobalState_def
        IsPlaying_def GetPlayerTrack_def IsChannelMuted_def muted_index_def QueueNote_def
        CSoundDriver_QueueNote_def pending_note_def note_call_def QueueNote_channel_def
        List.map_filter_simps example_defs)
  then obtain s' where p: "PlaySingleRow 0 ?s = Some s'"
    by (auto simp add: PlaySingleRow_calls_def split: option.splits)
  have d: "m_pDocument ?s = Some example_document"
    by (simp add: example_defs)
  from PlaySingleRow_skips_muted_channel [OF m p m d] m c show ?thesis by simp
qed


subsection \<open>What the steps of the program leave of the notes\<close>

lemma map_filter_append:
  "List.map_filter f (xs @ ys) = List.map_filter f xs @ List.map_filter f ys"
  by (simp add: List.map_filter_def)

lemma same_notes_refl: "same_notes s s"
  by (simp add: same_notes_def)

lemma same_notes_trans: "same_notes s t \<Longrightarrow> same_notes t u \<Longrightarrow> same_notes s u"
  by (simp add: same_notes_def)

lemma same_notes_note_call:
  "NoteRegisters_args k = None \<Longrightarrow> same_notes s (note_call k s)"
  by (simp add: same_notes_def note_call_def map_filter_append)

lemma same_notes_prims:
  "same_notes s (CAPU_Reset s)"
  "same_notes s (CAPU_Write a v s)"
  "same_notes s (CAPU_ClearSample s)"
  "same_notes s (CAPU_SetChipLevel chip level s)"
  "same_notes s (CAudioDriver_CloseAudioDevice s)"
  "same_notes s (CSoundDriver_StartPlayer Pos s)"
  "same_notes s (CSoundDriver_StopPlayer s)"
  "same_notes s (CSoundDriver_QueueNote c n p s)"
  "same_notes s (PostThreadMessage m s)"
  by (simp_all add: same_notes_def prim_defs CSoundDriver_StartPlayer_def
      CSoundDriver_StopPlayer_def CSoundDriver_QueueNote_def PostThreadMessage_def Let_def
      map_filter_append NoteRegisters_args_def)

lemma same_notes_resets:
  "same_notes s (ResetAPU s)"
  "same_notes s (MakeSilent s)"
  "same_notes s (ResetTempo s)"
  "same_notes s (HaltPlayer s)"
  by (simp_all add: same_notes_def ResetAPU_eq MakeSilent_eq ResetTempo_eq HaltPlayer_eq
      map_filter_append NoteRegisters_args_def split: option.splits)

lemma same_notes_ResetAudioDevice:
  "ResetAudioDevice s = Some (ok, s') \<Longrightarrow> same_notes s s'"
  by (auto simp add: same_notes_def ResetAudioDevice_def Let_def ResetAudioDevice_levels_def
      prim_defs map_filter_append NoteRegisters_args_def split: option.splits if_splits)

lemma same_notes_ApplyGlobalState:
  "ApplyGlobalState s = Some s' \<Longrightarrow> same_notes s s'"
  by (auto simp add: same_notes_def ApplyGlobalState_def note_call_def map_filter_append
      NoteRegisters_args_def split: option.splits if_splits prod.splits)

lemma same_notes_ResetBuffer:
  "ResetBuffer s = Some s' \<Longrightarrow> same_notes s s'"
  by (auto simp add: same_notes_def ResetBuffer_def prim_defs map_filter_append
      NoteRegisters_args_def split: option.splits)

lemma same_notes_CloseAudio: "same_notes s (CloseAudio s)"
  by (simp add: same_notes_def CloseAudio_def Let_def prim_defs map_filter_append
      NoteRegisters_args_def)

lemma same_notes_PlayPreviewSample:
  "PlayPreviewSample w l s = Some s' \<Longrightarrow> same_notes s s'"
  by (auto simp add: same_notes_def PlayPreviewSample_def Let_def prim_defs map_filter_append
      NoteRegisters_args_def split: option.splits)


lemma same_notes_BeginPlayer:
  assumes "BeginPlayer Pos s = Some s'"
  shows "same_notes s s'"
proof (cases "BeginPlayer Pos s = Some s")
  case True
  with assms show ?thesis by (simp add: same_notes_refl)
next
  case False
  define s3 where "s3 =
     (let s1 = CSoundDriver_StartPlayer Pos s;
          s2 = s1\<lparr>m_bHaltRequest := False, m_bPlayingSingleRow := False,
                  m_iLastTrack := CurrentSong Pos\<rparr>
      in if bAverageBPM (theApp_Settings s2)
         then s2\<lparr>m_pTempoDisplay :=
                   Some \<lparr>CacheSize = DEFAULT_AVERAGE_BPM_SIZE, History = []\<rparr>\<rparr>
         else s2)"
  define s4 where "s4 = MakeSilent (ResetAPU (ResetTempo s3))"
  have a: "same_notes s s3"
    by (simp add: s3_def same_notes_def Let_def CSoundDriver_StartPlayer_def note_call_def
        map_filter_append NoteRegisters_args_def)
  have b: "same_notes s3 s4"
    unfolding s4_def
    by (blast intro: same_notes_trans same_notes_resets)
  from assms False obtain s5 where
    c: "(if bRetrieveChanState (theApp_Settings s4) then ApplyGlobalState s4 else Some s4) = Some s5"
    and d: "s' = (if RecordChannel (m_pInstRecorder s5) \<noteq> NONE
                  then note_call (Recorder_call Recorder_StartRecording) s5 else s5)"
    by (auto simp add: BeginPlayer_def Let_def s3_def s4_def split: option.splits if_splits)
  from c have e: "same_notes s4 s5"
    by (auto simp add: same_notes_refl dest: same_notes_ApplyGlobalState split: if_splits)
  have f: "same_notes s5 s'"
    unfolding d by (simp add: same_notes_refl same_notes_note_call NoteRegisters_args_def)
  from a b e f show ?thesis by (blast intro: same_notes_trans)
qed

lemma same_notes_StartRendering:
  "StartRendering s = Some s' \<Longrightarrow> same_notes s s'"
  by (auto simp add: same_notes_def StartRendering_def ResetBuffer_def prim_defs
      map_filter_append NoteRegisters_args_def split: option.splits)

lemma same_notes_StopRendering:
  assumes "StopRendering s = Some s'"
  shows "same_notes s s'"
proof (cases "is_rendering_impl s")
  case False
  with assms show ?thesis by (simp add: StopRendering_def same_notes_refl)
next
  case True
  with assms obtain s1 where a: "ResetBuffer (s\<lparr>m_pWaveRenderer := None\<rparr>) = Some s1"
    and b: "s' = ResetAPU (HaltPlayer s1)"
    by (auto simp add: StopRendering_def split: option.splits)
  have "same_notes s (s\<lparr>m_pWaveRenderer := None\<rparr>)" by (simp add: same_notes_def)
  moreover from a have "same_notes (s\<lparr>m_pWaveRenderer := None\<rparr>) s1"
    by (rule same_notes_ResetBuffer)
  moreover have "same_notes s1 s'"
    unfolding b by (blast intro: same_notes_trans same_notes_resets)
  ultimately show ?thesis by (blast intro: same_notes_trans)
qed

lemma same_notes_OnThreadMessage:
  assumes "OnThreadMessage m s = Some s'"
  shows "same_notes s s'"
proof (cases m)
  case WM_USER_SILENT_ALL
  with assms show ?thesis by (auto simp add: OnSilentAll_def same_notes_resets)
next
  case WM_USER_LOAD_SETTINGS
  with assms obtain ok s1 where a: "ResetAudioDevice s = Some (ok, s1)"
    and b: "s' = (if \<not> ok \<and> m_pVisualizerWnd s1
                  then note_call (Device_call Visualizer_ReportAudioProblem) s1 else s1)"
    by (auto simp add: OnLoadSettings_def split: option.splits)
  have "same_notes s1 s'"
    unfolding b by (simp add: same_notes_refl same_notes_note_call NoteRegisters_args_def)
  with same_notes_ResetAudioDevice [OF a] show ?thesis by (blast intro: same_notes_trans)
next
  case (WM_USER_PLAY Pos)
  with assms show ?thesis by (auto simp add: OnStartPlayer_def dest: same_notes_BeginPlayer)
next
  case WM_USER_STOP
  with assms show ?thesis by (auto simp add: OnStopPlayer_def same_notes_resets)
next
  case (WM_USER_RESET pCur)
  with assms have
    "s' = s\<lparr>m_iLastTrack := CurrentSong pCur\<rparr>
     \<or> BeginPlayer pCur (s\<lparr>m_iLastTrack := CurrentSong pCur\<rparr>) = Some s'"
    by (auto simp add: OnResetPlayer_def Let_def split: if_splits)
  moreover have "same_notes s (s\<lparr>m_iLastTrack := CurrentSong pCur\<rparr>)"
    by (simp add: same_notes_def)
  ultimately show ?thesis
    by (blast intro: same_notes_trans dest: same_notes_BeginPlayer)
next
  case WM_USER_START_RENDER
  with assms show ?thesis by (auto simp add: OnStartRender_def dest: same_notes_StartRendering)
next
  case WM_USER_STOP_RENDER
  with assms show ?thesis by (auto simp add: OnStopRender_def dest: same_notes_StopRendering)
next
  case (WM_USER_PREVIEW_SAMPLE w l)
  with assms show ?thesis
    by (auto simp add: OnPreviewSample_def dest: same_notes_PlayPreviewSample)
next
  case (WM_USER_WRITE_APU w l)
  with assms show ?thesis by (auto simp add: OnWriteAPU_def same_notes_prims)
next
  case (WM_USER_CLOSE_SOUND e)
  with assms have "s' = (if e then note_call (UI_call Event_SetEvent) (CloseAudio s)
                         else CloseAudio s)"
    by (auto simp add: OnCloseSound_def Let_def)
  then have "same_notes (CloseAudio s) s'"
    by (simp add: same_notes_refl same_notes_note_call NoteRegisters_args_def)
  with same_notes_CloseAudio [of s] show ?thesis by (blast intro: same_notes_trans)
next
  case (WM_USER_SET_CHIP w)
  with assms show ?thesis
    by (auto simp add: OnSetChip_def same_notes_def prim_defs map_filter_append
        NoteRegisters_args_def)
next
  case WM_USER_REMOVE_DOCUMENT
  with assms show ?thesis
    by (auto simp add: OnRemoveDocument_def same_notes_def prim_defs map_filter_append
        NoteRegisters_args_def)
qed

lemma same_notes_DispatchMessages:
  "DispatchMessages ms s = Some s' \<Longrightarrow> same_notes s s'"
proof (induction ms arbitrary: s)
  case Nil
  then show ?case by (simp add: same_notes_refl)
next
  case (Cons m ms)
  from Cons.prems obtain s1 where
    a: "OnThreadMessage m s = Some s1" and b: "DispatchMessages ms s1 = Some s'"
    by (auto split: option.splits)
  from same_notes_OnThreadMessage [OF a] Cons.IH [OF b] show ?case
    by (rule same_notes_trans)
qed

lemma keeps_silent_refl: "keeps_silent c s s"
  by (simp add: keeps_silent_def)

lemma keeps_silent_trans: "keeps_silent c s t \<Longrightarrow> keeps_silent c t u \<Longrightarrow> keeps_silent c s u"
  by (simp add: keeps_silent_def)

lemma IsChannelMuted_muted:
  "muted s' = muted s \<Longrightarrow> IsChannelMuted c s' = IsChannelMuted c s"
  unfolding IsChannelMuted_def muted_index_def by (cases c) simp_all

lemma same_notes_keeps_silent:
  assumes "same_notes s s'"
  shows "keeps_silent c s s'"
proof -
  from assms have "muted s' = muted s" by (simp add: same_notes_def)
  then have "IsChannelMuted c s' = IsChannelMuted c s" by (rule IsChannelMuted_muted)
  with assms show ?thesis
    by (simp add: keeps_silent_def same_notes_def NoteRegisters_on_def)
qed

lemma map_filter_NoteRegisters:
  "List.map_filter NoteRegisters_args (map (\<lambda>(c, n). APU_call (APU_NoteRegisters c n)) xs) = xs"
  by (induction xs) (auto simp add: NoteRegisters_args_def)

lemma Tick_effect:
  "muted (CSoundDriver_Tick s) = muted s"
  "RegisterChanges (m_pSoundDriver (CSoundDriver_Tick s)) =
     RegisterChanges (m_pSoundDriver s) @
       map (\<lambda>(c, n, p). (c, n))
         (filter (\<lambda>(c, n, p). IsChannelMuted c s = Some False) (QueuedNotes (m_pSoundDriver s)))"
  "Calls (CSoundDriver_Tick s) = Calls s @ [Driver_call Driver_Tick]"
  by (simp_all add: CSoundDriver_Tick_def Let_def note_call_def)

lemma keeps_silent_Tick: "keeps_silent c s (CSoundDriver_Tick s)"
proof -
  have "IsChannelMuted c (CSoundDriver_Tick s) = IsChannelMuted c s"
    by (rule IsChannelMuted_muted) (simp add: Tick_effect)
  then show ?thesis
    by (auto simp add: keeps_silent_def Tick_effect NoteRegisters_on_def
        map_filter_append NoteRegisters_args_def)
qed

lemma UpdateAPU_effect:
  "muted (UpdateAPU s) = muted s"
  "RegisterChanges (m_pSoundDriver (UpdateAPU s)) = []"
  "Calls (UpdateAPU s) = Calls s @ [Driver_call (Driver_UpdateAPU (m_iUpdateCycles s))]
     @ map (\<lambda>(c, n). APU_call (APU_NoteRegisters c n)) (RegisterChanges (m_pSoundDriver s))"
  by (simp_all add: UpdateAPU_def CSoundDriver_UpdateAPU_def Let_def)

lemma keeps_silent_UpdateAPU: "keeps_silent c s (UpdateAPU s)"
proof -
  have "filter (\<lambda>e. fst e = c) xs = []" if "c \<notin> fst ` set xs"
    for xs :: "(chan_id_t \<times> stChanNote) list"
    using that by (induction xs) auto
  moreover have "IsChannelMuted c (UpdateAPU s) = IsChannelMuted c s"
    by (rule IsChannelMuted_muted) (simp add: UpdateAPU_effect)
  ultimately show ?thesis
    by (simp add: keeps_silent_def UpdateAPU_effect NoteRegisters_on_def
        map_filter_append map_filter_NoteRegisters NoteRegisters_args_def)
qed

lemma keeps_silent_IdleLoop:
  assumes "IdleLoop s = Some s'"
  shows "keeps_silent c s s'"
proof -
  define render where "render = (\<lambda>s1.
     case m_pWaveRenderer s1 of
       None \<Rightarrow> Some s1
     | Some r \<Rightarrow>
         if ShouldStopRender r then StopRendering s1
         else if ShouldStartPlayer r
         then Some (StartPlayer (CPlayerCursor_new (RenderTrack r)) s1)
         else Some s1)"
  define recorded where "recorded = (\<lambda>s3.
     if IsPlaying s3 \<and> RecordChannel (m_pInstRecorder s3) \<noteq> NONE
     then note_call (Recorder_call (Recorder_RecordInstrument (GetPlayerTicks s3))) s3
     else s3)"
  define halt where "halt = (\<lambda>s4.
     if ShouldHalt (m_pSoundDriver s4) \<or> m_bHaltRequest s4 then HaltPlayer s4 else s4)"
  define s0 where "s0 = s\<lparr>m_iFrameCounter := m_iFrameCounter s + 1\<rparr>"
  have eq: "IdleLoop s =
     (case m_pDocument s of
        None \<Rightarrow> Some s
      | Some doc \<Rightarrow>
          (case m_pAudioDriver s of
             None \<Rightarrow> None
           | Some a \<Rightarrow>
               if \<not> AudioDeviceOpen a \<or> \<not> FileLoaded doc then Some s
               else map_option (\<lambda>s2. halt (recorded (UpdateAPU s2)))
                      (render (CSoundDriver_Tick s0))))"
    unfolding IdleLoop_def render_def recorded_def halt_def s0_def Let_def map_option_case
    by (rule refl)
  have render: "same_notes s1 s2" if "render s1 = Some s2" for s1 s2
    using that unfolding render_def
    by (auto simp add: same_notes_refl StartPlayer_def same_notes_prims
        dest: same_notes_StopRendering split: option.splits if_splits)
  have recorded: "same_notes s3 (recorded s3)" for s3
    by (simp add: recorded_def same_notes_refl same_notes_note_call NoteRegisters_args_def)
  have halt: "same_notes s4 (halt s4)" for s4
    by (simp add: halt_def same_notes_refl same_notes_resets)
  show ?thesis
  proof (cases "s' = s")
    case True
    then show ?thesis by (simp add: keeps_silent_refl)
  next
    case False
    with assms obtain s2 where a: "render (CSoundDriver_Tick s0) = Some s2"
      and b: "s' = halt (recorded (UpdateAPU s2))"
      unfolding eq by (auto split: option.splits if_splits)
    have "keeps_silent c s s0"
      by (rule same_notes_keeps_silent) (simp add: s0_def same_notes_def)
    moreover have "keeps_silent c s0 (CSoundDriver_Tick s0)" by (rule keeps_silent_Tick)
    moreover have "keeps_silent c (CSoundDriver_Tick s0) s2"
      using render [OF a] by (rule same_notes_keeps_silent)
    moreover have "keeps_silent c s2 (UpdateAPU s2)" by (rule keeps_silent_UpdateAPU)
    moreover have "keeps_silent c (UpdateAPU s2) (recorded (UpdateAPU s2))"
      using recorded by (rule same_notes_keeps_silent)
    moreover have "keeps_silent c (recorded (UpdateAPU s2)) s'"
      unfolding b using halt by (rule same_notes_keeps_silent)
    ultimately show ?thesis by (blast intro: keeps_silent_trans)
  qed
qed


lemma keeps_silent_round:
  assumes "PlayerThread_round s = Some s'"
  shows "keeps_silent c s s'"
proof -
  from assms obtain s1 where
    a: "DispatchMessages (MessageQueue s) (s\<lparr>MessageQueue := []\<rparr>) = Some s1"
    and b: "IdleLoop s1 = Some s'"
    by (auto simp add: PlayerThread_round_def split: option.splits)
  have "same_notes s (s\<lparr>MessageQueue := []\<rparr>)" by (simp add: same_notes_def)
  with same_notes_DispatchMessages [OF a] have "same_notes s s1"
    by (blast intro: same_notes_trans)
  then have "keeps_silent c s s1" by (rule same_notes_keeps_silent)
  with keeps_silent_IdleLoop [OF b] show ?thesis by (blast intro: keeps_silent_trans)
qed

lemma same_notes_QueueNote:
  "QueueNote ch n p s = Some s' \<Longrightarrow> same_notes s s'"
  by (auto simp add: QueueNote_def same_notes_def CSoundDriver_QueueNote_def Let_def
      note_call_def map_filter_append NoteRegisters_args_def split: option.splits)

lemma same_notes_PlaySingleRow_channels:
  "PlaySingleRow_channels doc track frame row chans s = Some s' \<Longrightarrow> same_notes s s'"
proof (induction chans arbitrary: s)
  case Nil
  then show ?case by (simp add: same_notes_refl)
next
  case (Cons i rest)
  show ?case
  proof (cases "IsChannelMuted i s = Some False")
    case True
    with Cons.prems obtain s1 where
      a: "QueueNote i (ActiveNote doc track frame i row) NOTE_PRIO_1 s = Some s1"
      and b: "PlaySingleRow_channels doc track frame row rest s1 = Some s'"
      by (auto split: option.splits)
    from same_notes_QueueNote [OF a] Cons.IH [OF b] show ?thesis by (rule same_notes_trans)
  next
    case False
    with Cons.prems have "PlaySingleRow_channels doc track frame row rest s = Some s'"
      by (auto split: option.splits if_splits)
    then show ?thesis by (rule Cons.IH)
  qed
qed

lemma same_notes_PlaySingleRow:
  assumes "PlaySingleRow track s = Some s'"
  shows "same_notes s s'"
proof -
  let ?s1 = "s\<lparr>m_iLastTrack := track\<rparr>"
  define pre where "pre =
     (if \<not> m_bPlayingSingleRow ?s1
      then map_option (\<lambda>t. t\<lparr>m_bPlayingSingleRow := True\<rparr>) (ApplyGlobalState ?s1)
      else Some ?s1)"
  have eq: "PlaySingleRow track s =
     (case pre of
        None \<Rightarrow> None
      | Some s2 \<Rightarrow>
          (case m_pTrackerView s2 of
             None \<Rightarrow> None
           | Some v \<Rightarrow>
               (case m_pDocument s2 of
                  None \<Rightarrow> None
                | Some doc \<Rightarrow>
                    PlaySingleRow_channels doc track (fst (SelectedPos v)) (snd (SelectedPos v))
                      (Channels doc) s2)))"
    unfolding PlaySingleRow_def Let_def pre_def by (rule refl)
  from assms obtain s2 and v :: CFamiTrackerView and doc where a: "pre = Some s2"
    and b: "PlaySingleRow_channels doc track (fst (SelectedPos v)) (snd (SelectedPos v))
              (Channels doc) s2 = Some s'"
    unfolding eq by (auto split: option.splits)
  have 1: "same_notes s ?s1" by (simp add: same_notes_def)
  have 2: "same_notes ?s1 s2"
  proof (cases "m_bPlayingSingleRow s")
    case True
    with a show ?thesis by (simp add: pre_def same_notes_refl)
  next
    case False
    with a obtain t where t: "ApplyGlobalState ?s1 = Some t"
      and s2: "s2 = t\<lparr>m_bPlayingSingleRow := True\<rparr>" by (auto simp add: pre_def)
    have "same_notes t s2" by (simp add: s2 same_notes_def)
    with same_notes_ApplyGlobalState [OF t] show ?thesis by (rule same_notes_trans)
  qed
  from 1 2 same_notes_PlaySingleRow_channels [OF b] show ?thesis
    by (blast intro: same_notes_trans)
qed

lemma keeps_silent_SetChannelMute:
  assumes "SetChannelMute ch mute s = Some s'" and "\<not> (ch = c \<and> \<not> mute)"
  shows "keeps_silent c s s'"
proof -
  from assms(1) obtain i where i: "muted_index s ch = Some i"
    and m: "muted s' = (muted s)[i := mute]"
    and r: "RegisterChanges (m_pSoundDriver s') = RegisterChanges (m_pSoundDriver s)"
    and l: "Calls s' = Calls s"
    by (auto simp add: SetChannelMute_def Let_def SetRecordChannel_def split: option.splits)
  have "IsChannelMuted c s' = Some True" if "IsChannelMuted c s = Some True"
    using that i assms(2)
    by (auto simp add: IsChannelMuted_def muted_index_def m nth_list_update
        split: chan_id_t.splits if_splits)
  then show ?thesis
    by (simp add: keeps_silent_def r l NoteRegisters_on_def)
qed

lemma keeps_silent_perform:
  assumes "perform a s = Some s'" and "a \<noteq> Set_mute c False"
  shows "keeps_silent c s s'"
proof (cases a)
  case Thread_round
  with assms show ?thesis by (simp add: keeps_silent_round)
next
  case (Queue_note ch n p)
  with assms show ?thesis by (auto intro: same_notes_keeps_silent dest: same_notes_QueueNote)
next
  case (Play_single_row track)
  with assms show ?thesis by (auto intro: same_notes_keeps_silent dest: same_notes_PlaySingleRow)
next
  case (Post_message m)
  with assms show ?thesis by (auto intro: same_notes_keeps_silent same_notes_prims)
next
  case (Set_mute ch mute)
  with assms show ?thesis by (auto intro: keeps_silent_SetChannelMute)
qed

lemma keeps_silent_perform_all:
  "perform_all acts s = Some s' \<Longrightarrow> Set_mute c False \<notin> set acts \<Longrightarrow> keeps_silent c s s'"
proof (induction acts arbitrary: s)
  case Nil
  then show ?case by (simp add: keeps_silent_refl)
next
  case (Cons a rest)
  from Cons.prems(1) obtain s1 where
    a: "perform a s = Some s1" and b: "perform_all rest s1 = Some s'"
    by (auto split: option.splits)
  from Cons.prems(2) have "a \<noteq> Set_mute c False" and "Set_mute c False \<notin> set rest"
    by auto
  with keeps_silent_perform [OF a] Cons.IH [OF b] show ?case
    by (blast intro: keeps_silent_trans)
qed

text \<open>
  Claim C3. Let channel \<open>c\<close> be muted, with no register change of \<open>c\<close> waiting in the
  driver (none waits between two passes of the player thread's loop). Then whatever is
  done afterwards, in any order and number, by the main thread (queueing notes on any
  channel, \<open>c\<close> included, playing single rows, posting messages to the player thread,
  muting or unmuting channels) and by the player thread (rounds of its loop, which
  dispatch the posted messages and run \<open>IdleLoop\<close>), as long as \<open>c\<close> is not unmuted: no
  note of channel \<open>c\<close> reaches the APU as a register write (the notes of \<open>c\<close> written to
  registers are those written before), and \<open>c\<close> is still muted at the end. The steps of
  \<open>CSoundGen\<close> leave the mute flags alone and write no note to a register themselves;
  \<open>QueueNote\<close> forwards a note to the sound driver whatever the mute flag is, and it is
  the tick of the driver, as modelled, that drops the pending note of a muted channel.
\<close>

theorem muted_channel_notes_never_reach_APU:
  assumes "IsChannelMuted c s = Some True"
      and "c \<notin> fst ` set (RegisterChanges (m_pSoundDriver s))"
      and "Set_mute c False \<notin> set acts"
      and "perform_all acts s \<noteq> None"
  shows "map_option (NoteRegisters_on c) (perform_all acts s) = Some (NoteRegisters_on c s)
         \<and> Option.bind (perform_all acts s) (IsChannelMuted c) = Some True"
proof -
  from assms(4) obtain s' where r: "perform_all acts s = Some s'" by auto
  from keeps_silent_perform_all [OF r assms(3)] assms(1,2) show ?thesis
    by (simp add: keeps_silent_def r)
qed

theorem muted_channel_notes_never_reach_APU_witness:
  "SetChannelMute (CHANID 2) True example_state = Some example_muted
   \<and> IsChannelMuted (CHANID 2) example_muted = Some True
   \<and> CHANID 2 \<notin> fst ` set (RegisterChanges (m_pSoundDriver example_muted))
   \<and> Set_mute (CHANID 2) False \<notin>
       set [Queue_note (CHANID 2) example_note NOTE_PRIO_2,
            Queue_note (CHANID 1) example_note NOTE_PRIO_2, Thread_round]
   \<and> map_option (NoteRegisters_on (CHANID 2))
        (perform_all [Queue_note (CHANID 2) example_note NOTE_PRIO_2,
                      Queue_note (CHANID 1) example_note NOTE_PRIO_2, Thread_round]
           example_muted) = Some []
   \<and> map_option (NoteRegisters_on (CHANID 1))
        (perform_all [Queue_note (CHANID 2) example_note NOTE_PRIO_2,
                      Queue_note (CHANID 1) example_note NOTE_PRIO_2, Thread_round]
           example_muted) = Some [example_note]
   \<and> Option.bind
        (perform_all [Queue_note (CHANID 2) example_note NOTE_PRIO_2,
                      Queue_note (CHANID 1) example_note NOTE_PRIO_2, Thread_round]
           example_muted) (IsChannelMuted (CHANID 2)) = Some True"
  using muted_channel_notes_never_reach_APU [of "CHANID 2" example_muted
          "[Queue_note (CHANID 2) example_note NOTE_PRIO_2,
            Queue_note (CHANID 1) example_note NOTE_PRIO_2, Thread_round]"]
  by (simp add: example_muted_def SetChannelMute_def GetRecordChannel_def SetRecordChannel_def
      QueueNote_def CSoundDriver_QueueNote_def pending_note_def
      IsChannelMuted_def muted_index_def NoteRegisters_on_def NoteRegisters_args_def
      example_defs thread_defs)

section \<open>Rendering while the player is playing\<close>

lemma stuck_round:
  assumes "MessageQueue s = []" and "m_pDocument s = Some doc"
      and "m_pAudioDriver s = Some a" and "\<not> AudioDeviceOpen a"
  shows "PlayerThread_round s = Some s"
proof -
  have "s\<lparr>MessageQueue := []\<rparr> = s" using assms(1) by simp
  then show ?thesis
    using assms by (simp add: PlayerThread_round_def IdleLoop_def)
qed

lemma stuck_thread:
  assumes "MessageQueue s = []" and "m_pDocument s = Some doc"
      and "m_pAudioDriver s = Some a" and "\<not> AudioDeviceOpen a"
  shows "PlayerThread n s = Some s"
  by (induction n) (simp_all add: stuck_round [OF assms])

lemma WaitForStop_loop_const:
  assumes "\<And>i. Sleep i s = s" and "IsPlaying s"
  shows "i \<le> 40 \<Longrightarrow> WaitForStop_loop Sleep i s = (40, s)"
proof (induction "40 - i" arbitrary: i)
  case 0
  then have "i = 40" by simp
  then show ?case by (simp add: WaitForStop_loop_stop)
next
  case (Suc k)
  then have lt: "i < 40" and k: "k = 40 - (i + 1)" and le: "i + 1 \<le> 40" by simp_all
  have "WaitForStop_loop Sleep i s = WaitForStop_loop Sleep (i + 1) (Sleep i s)"
    using lt assms(2) by (rule WaitForStop_loop_step)
  also have "\<dots> = (40, s)"
    unfolding assms(1) by (rule Suc.hyps(1) [OF k le])
  finally show ?case .
qed


lemma load_settings_closes_device:
  "OnThreadMessage WM_USER_LOAD_SETTINGS
     (example_playing\<lparr>m_pDSound :=
        Some \<lparr>DeviceCount = 0, SetupDevice_ok = (\<lambda>d. False),
              OpenChannel_ok = (\<lambda>r z c b n. False)\<rparr>\<rparr>) = Some closed_device_state"
  by (simp add: OnLoadSettings_def ResetAudioDevice_def Let_def prim_defs closed_device_state_def
      example_defs)

lemma halt_times_out:
  "RenderToFile_halt (Sleep_while_thread_runs (\<lambda>i. 3)) closed_device_state =
     closed_device_state\<lparr>m_bHaltRequest := True\<rparr>"
proof -
  let ?s = "closed_device_state\<lparr>m_bHaltRequest := True\<rparr>"
  have p: "IsPlaying ?s" and p0: "IsPlaying closed_device_state"
    by (simp_all add: closed_device_state_def IsPlaying_def example_defs)
  have "PlayerThread n ?s = Some ?s" for n
    by (rule stuck_thread [where doc = example_document and a = "\<lparr>AudioDeviceOpen = False\<rparr>"])
       (simp_all add: closed_device_state_def example_defs)
  then have "Sleep_while_thread_runs (\<lambda>i. 3) i ?s = ?s" for i
    by (simp add: Sleep_while_thread_runs_def)
  from WaitForStop_loop_const [of "Sleep_while_thread_runs (\<lambda>i. 3)" ?s 0, OF this p]
  have "WaitForStop_loop (Sleep_while_thread_runs (\<lambda>i. 3)) 0 ?s = (40, ?s)" by simp
  then show ?thesis
    using p0 by (simp add: RenderToFile_halt_def WaitForStop_def)
qed

text \<open>
  Claim C4. The claim fails on the code: \<open>RenderToFile\<close> does not use the result of
  \<open>WaitForStop\<close>. In the run \<open>render_while_playing_run\<close> the player thread never reaches
  the halt request, because \<open>IdleLoop\<close> returns early while the audio device is closed;
  the wait times out after 40 polls with the player still playing, the render request is
  accepted all the same (\<open>RenderToFile\<close> returns true), and after the player thread has
  handled the start message the player is playing and the render is active together.
\<close>

theorem render_accepted_while_playing:
  "render_while_playing_run = Some (True, True, True)"
  apply (simp only: render_while_playing_run_def load_settings_closes_device option.case)
  apply (simp only: RenderToFile_def halt_times_out option.case Let_def)
  apply (simp add: PostThreadMessage_def note_call_def PlayerThread_round_def
      OnStartRender_def StartRendering_def ResetBuffer_def prim_defs IdleLoop_def
      IsPlaying_def IsRendering_def is_rendering_impl_def closed_device_state_def example_defs)
  done

end
